theory Spec2Isabelle
  imports Complex_Main
begin

section \<open>JavaScript strings\<close>

text \<open>
  A JavaScript string is modelled as a \<open>string\<close>, the list of its code units; the
  model covers the strings whose code units are below 256. A value that may be
  \<open>undefined\<close> (or \<open>null\<close>) is an \<open>option\<close>.
\<close>

text \<open>Truthiness of a string that may be \<open>undefined\<close>: defined and not empty.\<close>

fun truthyStr :: "string option \<Rightarrow> bool" where
  "truthyStr None = False"
| "truthyStr (Some s) = (s \<noteq> [])"

text \<open>A value inside a template literal: \<open>undefined\<close> is printed as such.\<close>

fun templateStr :: "string option \<Rightarrow> string" where
  "templateStr None = ''undefined''"
| "templateStr (Some s) = s"

text \<open>A natural number in decimal, as a template literal prints it.\<close>

definition digitChar :: "nat \<Rightarrow> char" where
  "digitChar d = ''0123456789'' ! d"

function showNat :: "nat \<Rightarrow> string" where
  "showNat n = (if n < 10 then [digitChar n] else showNat (n div 10) @ [digitChar (n mod 10)])"
  by pat_completeness auto
termination
  by (relation "measure id") auto

fun templateNum :: "nat option \<Rightarrow> string" where
  "templateNum None = ''undefined''"
| "templateNum (Some n) = showNat n"

text \<open>\<open>xs.join(sep)\<close>.\<close>

fun join :: "string \<Rightarrow> string list \<Rightarrow> string" where
  "join sep [] = []"
| "join sep [x] = x"
| "join sep (x # y # ys) = x @ sep @ join sep (y # ys)"

text \<open>\<open>s.split(sep)\<close> for a separator of one code unit: the segments between
  the separators, at least one.\<close>

fun js_split :: "char \<Rightarrow> string \<Rightarrow> string list" where
  "js_split sep [] = [[]]"
| "js_split sep (c # cs) =
     (if c = sep then [] # js_split sep cs
      else (case js_split sep cs of
              [] \<Rightarrow> [[c]]
            | seg # segs \<Rightarrow> (c # seg) # segs))"

text \<open>\<open>xs[i]\<close>: \<open>undefined\<close> beyond the end.\<close>

fun elemAt :: "'a list \<Rightarrow> nat \<Rightarrow> 'a option" where
  "elemAt [] i = None"
| "elemAt (x # xs) 0 = Some x"
| "elemAt (x # xs) (Suc i) = elemAt xs i"

text \<open>
  The character classes of regular expressions, on code units below 256: \<open>.\<close>
  matches every code unit but a line terminator (line feed and carriage return;
  U+2028 and U+2029 are beyond 255), \<open>\d\<close> a decimal digit, \<open>\s\<close> white space
  (tab, line feed, vertical tab, form feed, carriage return, space, no-break space).
\<close>

definition lineTerminator :: "char \<Rightarrow> bool" where
  "lineTerminator c = (c = CHR 0x0A \<or> c = CHR 0x0D)"

definition isDigit :: "char \<Rightarrow> bool" where
  "isDigit c = (48 \<le> (of_char c :: nat) \<and> (of_char c :: nat) \<le> 57)"

definition isSpace :: "char \<Rightarrow> bool" where
  "isSpace c = (c = CHR 0x09 \<or> c = CHR 0x0A \<or> c = CHR 0x0B \<or> c = CHR 0x0C \<or> c = CHR 0x0D
                \<or> c = CHR 0x20 \<or> c = CHR 0xA0)"

text \<open>The value of a string of decimal digits, read from the left onto \<open>acc\<close>.\<close>

fun digitsValue :: "nat \<Rightarrow> string \<Rightarrow> nat" where
  "digitsValue acc [] = acc"
| "digitsValue acc (c # cs) = digitsValue (10 * acc + (of_char c - 48)) cs"

fun stripPrefix :: "string \<Rightarrow> string \<Rightarrow> string option" where
  "stripPrefix [] s = Some s"
| "stripPrefix (p # ps) [] = None"
| "stripPrefix (p # ps) (c # cs) = (if p = c then stripPrefix ps cs else None)"

lemma stripPrefix_Some: "stripPrefix p s = Some r \<Longrightarrow> s = p @ r"
  by (induction p s rule: stripPrefix.induct) (simp_all split: if_splits)

lemma stripPrefix_length: "stripPrefix p s = Some r \<Longrightarrow> length r \<le> length s"
  by (drule stripPrefix_Some) simp

lemma dropWhile_shorter: "takeWhile P xs \<noteq> [] \<Longrightarrow> length (dropWhile P xs) < length xs"
  by (induction xs) (auto simp: less_Suc_eq_le length_dropWhile_le split: if_splits)

section \<open>Image codec\<close>

text \<open>
  A part of a request, as the source types it:
  \<open>{ text: string } | { inlineData: { data: string; mimeType: string } }\<close>.
  The \<open>data\<close> of an inline part is \<open>undefined\<close> when the image string has no comma.
\<close>

datatype part =
    TextPart string
  | InlineDataPart "string option" string

text \<open>
  \<^verbatim>\<open>
  function base64ToGeminiPart(base64: string, mimeType: string) {
    return { inlineData: { data: base64.split(',')[1], mimeType } };
  }
  \<close>
\<close>

definition base64ToGeminiPart :: "string \<Rightarrow> string \<Rightarrow> part" where
  "base64ToGeminiPart base64 mimeType' =
     InlineDataPart (elemAt (js_split (CHR '','') base64) 1) mimeType'"

text \<open>
  Every call site computes the media type of an image string by
  \<^verbatim>\<open>img.match(/data:(image\/.*?);/)?.[1] || 'image/png'\<close>.
  The pattern is not anchored: \<open>match\<close> tries every start position from the left.
  At a start position it reads \<open>data:image/\<close>, then \<open>.*?\<close> lazily up to the first
  \<open>;\<close>, and fails at that position when a line terminator or the end of the string
  comes first. Group 1 is \<open>image/\<close> with what \<open>.*?\<close> read.
\<close>

fun lazyDotsSemicolon :: "string \<Rightarrow> string option" where
  "lazyDotsSemicolon [] = None"
| "lazyDotsSemicolon (c # cs) =
     (if c = CHR '';'' then Some []
      else if lineTerminator c then None
      else map_option ((#) c) (lazyDotsSemicolon cs))"

definition matchHere :: "string \<Rightarrow> string option" where
  "matchHere s =
     (case stripPrefix ''data:image/'' s of
        None \<Rightarrow> None
      | Some rest \<Rightarrow> map_option ((@) ''image/'') (lazyDotsSemicolon rest))"

fun matchGroup1 :: "string \<Rightarrow> string option" where
  "matchGroup1 [] = matchHere []"
| "matchGroup1 (c # cs) =
     (case matchHere (c # cs) of
        Some g \<Rightarrow> Some g
      | None \<Rightarrow> matchGroup1 cs)"

definition sniffMimeType :: "string \<Rightarrow> string" where
  "sniffMimeType img =
     (case matchGroup1 img of
        None \<Rightarrow> ''image/png''
      | Some g \<Rightarrow> (if g = [] then ''image/png'' else g))"

text \<open>
  The two lines every call site repeats for an image it attaches:
  \<^verbatim>\<open>
  const mimeType = img.match(/data:(image\/.*?);/)?.[1] || 'image/png';
  ... base64ToGeminiPart(img, mimeType)
  \<close>
  This is the decoding of an encoded image into media type and payload.
\<close>

definition imagePart :: "string \<Rightarrow> part" where
  "imagePart img = base64ToGeminiPart img (sniffMimeType img)"

text \<open>The encoding, as every image-producing operation builds its result:
  \<^verbatim>\<open>`data:${mimeType};base64,${data}`\<close>.\<close>

definition dataUri :: "string \<Rightarrow> string \<Rightarrow> string" where
  "dataUri mimeType' data' = ''data:'' @ mimeType' @ '';base64,'' @ data'"

section \<open>\<open>JSON.parse\<close>\<close>

text \<open>
  \<open>JSON.parse\<close> is the platform's; it is modelled after the JSON grammar
  (ECMA-404), which ECMAScript prescribes for it. A string value is the list of
  its UTF-16 code units (an escape \<open>\uXXXX\<close> can name any of them). A number is
  kept as the exact value of its literal. An object is the list of its own
  properties in the order of their creation; a repeated key overwrites the value
  in place, as \<open>JSON.parse\<close> does.
\<close>

datatype json =
    JNull
  | JBool bool
  | JNumber rat
  | JString "nat list"
  | JArray "json list"
  | JObject "(nat list \<times> json) list"

abbreviation units :: "string \<Rightarrow> nat list" where
  "units s \<equiv> map of_char s"

datatype token =
    TLBrace | TRBrace | TLBracket | TRBracket | TColon | TComma
  | TString "nat list" | TNumber rat | TTrue | TFalse | TNull

definition isWhitespace :: "char \<Rightarrow> bool" where
  "isWhitespace c = (c = CHR 0x20 \<or> c = CHR 0x09 \<or> c = CHR 0x0A \<or> c = CHR 0x0D)"

definition hexVal :: "char \<Rightarrow> nat option" where
  "hexVal c =
     (let n = (of_char c :: nat) in
      if 48 \<le> n \<and> n \<le> 57 then Some (n - 48)
      else if 65 \<le> n \<and> n \<le> 70 then Some (n - 55)
      else if 97 \<le> n \<and> n \<le> 102 then Some (n - 87)
      else None)"

text \<open>The code unit of a two-character escape: quotation mark, reverse solidus,
  solidus, and the control characters \<open>b f n r t\<close>.\<close>

definition escapeUnit :: "char \<Rightarrow> nat option" where
  "escapeUnit e =
     (if e = CHR 0x22 then Some 0x22
      else if e = CHR 0x5C then Some 0x5C
      else if e = CHR ''/'' then Some 0x2F
      else if e = CHR ''b'' then Some 0x08
      else if e = CHR ''f'' then Some 0x0C
      else if e = CHR ''n'' then Some 0x0A
      else if e = CHR ''r'' then Some 0x0D
      else if e = CHR ''t'' then Some 0x09
      else None)"

fun consUnit :: "nat \<Rightarrow> (nat list \<times> string) option \<Rightarrow> (nat list \<times> string) option" where
  "consUnit u None = None"
| "consUnit u (Some (us, rest)) = Some (u # us, rest)"

text \<open>A string literal after its opening quotation mark: its code units and the
  input after the closing quotation mark. Control characters must be escaped.\<close>

fun lexString :: "string \<Rightarrow> (nat list \<times> string) option" where
  "lexString [] = None"
| "lexString (c # cs) =
     (if c = CHR 0x22 then Some ([], cs)
      else if c = CHR 0x5C then
        (case cs of
           [] \<Rightarrow> None
         | e # es \<Rightarrow>
             (if e = CHR ''u'' then
                (case es of
                   h1 # h2 # h3 # h4 # rest \<Rightarrow>
                     (case (hexVal h1, hexVal h2, hexVal h3, hexVal h4) of
                        (Some a, Some b, Some c, Some d) \<Rightarrow>
                          consUnit (((a * 16 + b) * 16 + c) * 16 + d) (lexString rest)
                      | _ \<Rightarrow> None)
                 | _ \<Rightarrow> None)
              else (case escapeUnit e of
                      None \<Rightarrow> None
                    | Some u \<Rightarrow> consUnit u (lexString es))))
      else if (of_char c :: nat) < 0x20 then None
      else consUnit (of_char c) (lexString cs))"

text \<open>
  A number literal: an optional minus sign, an integer part without a leading
  zero (or a single zero), an optional fraction, an optional exponent.
\<close>

definition lexFraction :: "string \<Rightarrow> (string \<times> string) option" where
  "lexFraction s =
     (case s of
        [] \<Rightarrow> Some ([], s)
      | c # r \<Rightarrow>
          (if c = CHR ''.'' then
             (if takeWhile isDigit r = [] then None
              else Some (takeWhile isDigit r, dropWhile isDigit r))
           else Some ([], s)))"

definition lexExponent :: "string \<Rightarrow> (int \<times> string) option" where
  "lexExponent s =
     (case s of
        [] \<Rightarrow> Some (0, s)
      | c # r \<Rightarrow>
          (if c = CHR ''e'' \<or> c = CHR ''E'' then
             (let neg = (case r of [] \<Rightarrow> False | d # _ \<Rightarrow> d = CHR ''-'');
                  signed = (case r of [] \<Rightarrow> False | d # _ \<Rightarrow> d = CHR ''-'' \<or> d = CHR ''+'');
                  r1 = (if signed then tl r else r);
                  ds = takeWhile isDigit r1
              in if ds = [] then None
                 else Some ((if neg then - int (digitsValue 0 ds) else int (digitsValue 0 ds)),
                            dropWhile isDigit r1))
           else Some (0, s)))"

definition numberValue :: "bool \<Rightarrow> string \<Rightarrow> string \<Rightarrow> int \<Rightarrow> rat" where
  "numberValue neg ip fp e =
     (if neg then - 1 else 1) * of_nat (digitsValue 0 (ip @ fp)) * 10 powi (e - int (length fp))"

definition lexNumber :: "string \<Rightarrow> (rat \<times> string) option" where
  "lexNumber s =
     (let neg = (case s of [] \<Rightarrow> False | c # _ \<Rightarrow> c = CHR ''-'');
          s1 = (if neg then tl s else s);
          ip = takeWhile isDigit s1
      in if ip = [] \<or> (hd ip = CHR ''0'' \<and> tl ip \<noteq> []) then None
         else (case lexFraction (dropWhile isDigit s1) of
                 None \<Rightarrow> None
               | Some (fp, s3) \<Rightarrow>
                   (case lexExponent s3 of
                      None \<Rightarrow> None
                    | Some (e, s4) \<Rightarrow> Some (numberValue neg ip fp e, s4))))"

lemma consUnit_Some:
  "consUnit u r = Some (us, rest) \<Longrightarrow> \<exists>us'. r = Some (us', rest)"
  by (cases r) auto

lemma lexString_length: "lexString s = Some (us, rest) \<Longrightarrow> length rest < length s"
proof (induction s arbitrary: us rest rule: lexString.induct)
  case 1
  then show ?case by simp
next
  case (2 c cs)
  show ?case
    using "2.prems" "2.IH"
    by (fastforce split: if_splits list.splits option.splits dest!: consUnit_Some)
qed

lemma lexFraction_length: "lexFraction s = Some (fp, r) \<Longrightarrow> length r \<le> length s"
  unfolding lexFraction_def
  by (auto split: list.splits if_splits intro: le_SucI length_dropWhile_le)

lemma lexExponent_length:
  assumes "lexExponent s = Some (e, r)"
  shows "length r \<le> length s"
proof (cases s)
  case Nil
  then show ?thesis using assms by (simp add: lexExponent_def)
next
  case (Cons c t)
  have a: "length (dropWhile isDigit t) \<le> Suc (length t)"
    using length_dropWhile_le [of isDigit t] by simp
  have b: "length (dropWhile isDigit (tl t)) \<le> Suc (length t)"
    using length_dropWhile_le [of isDigit "tl t"] by simp
  show ?thesis
    using assms a b unfolding lexExponent_def Let_def Cons
    by (auto split: if_splits)
qed

lemma lexNumber_length:
  assumes "lexNumber s = Some (q, r)"
  shows "length r < length s"
proof -
  define s1 where "s1 = (if (case s of [] \<Rightarrow> False | c # _ \<Rightarrow> c = CHR ''-'') then tl s else s)"
  have s1: "length s1 \<le> length s" by (simp add: s1_def)
  from assms have ip: "takeWhile isDigit s1 \<noteq> []"
    unfolding lexNumber_def Let_def s1_def [symmetric] by (auto split: if_splits)
  from assms obtain fp s3 e where
    f: "lexFraction (dropWhile isDigit s1) = Some (fp, s3)" and x: "lexExponent s3 = Some (e, r)"
    unfolding lexNumber_def Let_def s1_def [symmetric]
    by (auto split: if_splits option.splits)
  have "length r \<le> length s3" using lexExponent_length [OF x] .
  also have "\<dots> \<le> length (dropWhile isDigit s1)" using lexFraction_length [OF f] .
  also have "\<dots> < length s1" using dropWhile_shorter [OF ip] .
  finally show ?thesis using s1 by simp
qed

fun consToken :: "token \<Rightarrow> token list option \<Rightarrow> token list option" where
  "consToken t None = None"
| "consToken t (Some ts) = Some (t # ts)"

function lex :: "string \<Rightarrow> token list option" where
  "lex [] = Some []"
| "lex (c # cs) =
     (if isWhitespace c then lex cs
      else if c = CHR ''{'' then consToken TLBrace (lex cs)
      else if c = CHR ''}'' then consToken TRBrace (lex cs)
      else if c = CHR ''['' then consToken TLBracket (lex cs)
      else if c = CHR '']'' then consToken TRBracket (lex cs)
      else if c = CHR '':'' then consToken TColon (lex cs)
      else if c = CHR '','' then consToken TComma (lex cs)
      else if c = CHR 0x22 then
        (case lexString cs of
           None \<Rightarrow> None
         | Some (us, rest) \<Rightarrow> consToken (TString us) (lex rest))
      else if c = CHR ''-'' \<or> isDigit c then
        (case lexNumber (c # cs) of
           None \<Rightarrow> None
         | Some (q, rest) \<Rightarrow> consToken (TNumber q) (lex rest))
      else if c = CHR ''t'' then
        (case stripPrefix ''rue'' cs of
           None \<Rightarrow> None
         | Some rest \<Rightarrow> consToken TTrue (lex rest))
      else if c = CHR ''f'' then
        (case stripPrefix ''alse'' cs of
           None \<Rightarrow> None
         | Some rest \<Rightarrow> consToken TFalse (lex rest))
      else if c = CHR ''n'' then
        (case stripPrefix ''ull'' cs of
           None \<Rightarrow> None
         | Some rest \<Rightarrow> consToken TNull (lex rest))
      else None)"
  by pat_completeness auto
termination
  apply (relation "measure length")
              apply simp_all
  subgoal for c cs x2 x y using lexString_length [of cs x y] by simp
  subgoal for c cs x2 x y using lexNumber_length [of "c # cs" x y] by simp
  subgoal for c cs x2 using stripPrefix_length [of "''rue''" cs x2] by simp
  subgoal for c cs x2 using stripPrefix_length [of "''alse''" cs x2] by simp
  subgoal for c cs x2 using stripPrefix_length [of "''ull''" cs x2] by simp
  done

text \<open>
  The grammar over the tokens, as a pushdown automaton: the stack holds the arrays
  and objects that are open, innermost first, an object with the key whose value
  is being read.
\<close>

fun setProperty :: "(nat list \<times> json) list \<Rightarrow> nat list \<Rightarrow> json \<Rightarrow> (nat list \<times> json) list" where
  "setProperty [] k v = [(k, v)]"
| "setProperty ((k', v') # kvs) k v =
     (if k' = k then (k, v) # kvs else (k', v') # setProperty kvs k v)"

datatype frame =
    InArray "json list"
  | InObject "(nat list \<times> json) list" "nat list option"

datatype expect = Value | FirstElement | FirstKey | Key | Colon | After

datatype pstate = Running expect "frame list" | Done json | Failed

fun complete :: "json \<Rightarrow> frame list \<Rightarrow> pstate" where
  "complete v [] = Done v"
| "complete v (InArray vs # st) = Running After (InArray (vs @ [v]) # st)"
| "complete v (InObject kvs (Some k) # st) =
     Running After (InObject (setProperty kvs k v) None # st)"
| "complete v (InObject kvs None # st) = Failed"

fun startValue :: "token \<Rightarrow> frame list \<Rightarrow> pstate" where
  "startValue TLBracket st = Running FirstElement (InArray [] # st)"
| "startValue TLBrace st = Running FirstKey (InObject [] None # st)"
| "startValue (TString us) st = complete (JString us) st"
| "startValue (TNumber q) st = complete (JNumber q) st"
| "startValue TTrue st = complete (JBool True) st"
| "startValue TFalse st = complete (JBool False) st"
| "startValue TNull st = complete JNull st"
| "startValue TRBrace st = Failed"
| "startValue TRBracket st = Failed"
| "startValue TColon st = Failed"
| "startValue TComma st = Failed"

definition closeArray :: "frame list \<Rightarrow> pstate" where
  "closeArray st =
     (case st of
        InArray vs # st' \<Rightarrow> complete (JArray vs) st'
      | _ \<Rightarrow> Failed)"

definition closeObject :: "frame list \<Rightarrow> pstate" where
  "closeObject st =
     (case st of
        InObject kvs None # st' \<Rightarrow> complete (JObject kvs) st'
      | _ \<Rightarrow> Failed)"

definition readKey :: "token \<Rightarrow> frame list \<Rightarrow> pstate" where
  "readKey t st =
     (case (t, st) of
        (TString k, InObject kvs None # st') \<Rightarrow> Running Colon (InObject kvs (Some k) # st')
      | _ \<Rightarrow> Failed)"

definition afterComma :: "frame list \<Rightarrow> pstate" where
  "afterComma st =
     (case st of
        InArray vs # st' \<Rightarrow> Running Value st
      | InObject kvs None # st' \<Rightarrow> Running Key st
      | _ \<Rightarrow> Failed)"

fun stepRunning :: "expect \<Rightarrow> frame list \<Rightarrow> token \<Rightarrow> pstate" where
  "stepRunning Value st t = startValue t st"
| "stepRunning FirstElement st t =
     (if t = TRBracket then closeArray st else startValue t st)"
| "stepRunning FirstKey st t =
     (if t = TRBrace then closeObject st else readKey t st)"
| "stepRunning Key st t = readKey t st"
| "stepRunning Colon st t = (if t = TColon then Running Value st else Failed)"
| "stepRunning After st t =
     (if t = TComma then afterComma st
      else if t = TRBracket then closeArray st
      else if t = TRBrace then closeObject st
      else Failed)"

fun step :: "pstate \<Rightarrow> token \<Rightarrow> pstate" where
  "step (Running e st) t = stepRunning e st t"
| "step (Done v) t = Failed"
| "step Failed t = Failed"

fun finish :: "pstate \<Rightarrow> json option" where
  "finish (Done v) = Some v"
| "finish (Running e st) = None"
| "finish Failed = None"

definition parseTokens :: "token list \<Rightarrow> json option" where
  "parseTokens ts = finish (foldl step (Running Value []) ts)"

definition JSON_parse :: "string \<Rightarrow> json option" where
  "JSON_parse s = (case lex s of None \<Rightarrow> None | Some ts \<Rightarrow> parseTokens ts)"

text \<open>
  Truthiness of a parsed value. \<open>JSON.parse\<close> rounds a number to the nearest
  double, so a number is zero, and falsy, exactly when its magnitude is at most
  2 to the power -1075, half the least positive double.
\<close>

fun truthy :: "json \<Rightarrow> bool" where
  "truthy JNull = False"
| "truthy (JBool b) = b"
| "truthy (JNumber q) = (\<bar>q\<bar> > 1 / 2 ^ 1075)"
| "truthy (JString us) = (us \<noteq> [])"
| "truthy (JArray vs) = True"
| "truthy (JObject kvs) = True"

text \<open>
  \<open>v.summary\<close> and \<open>v.panels\<close> on a parsed value: an own property of an object.
  The prototypes of objects, arrays, strings, numbers and booleans have no
  property of these names (nor of the names of the analysis result), so every
  other lookup is \<open>undefined\<close>. (On \<open>null\<close> the access would raise; the source
  reads no property of a falsy value.)
\<close>

fun ownProperty :: "json \<Rightarrow> string \<Rightarrow> json option" where
  "ownProperty (JObject kvs) k = map_of kvs (units k)"
| "ownProperty v k = None"

fun truthyProperty :: "json option \<Rightarrow> bool" where
  "truthyProperty None = False"
| "truthyProperty (Some v) = truthy v"

fun isArray :: "json option \<Rightarrow> bool" where
  "isArray (Some (JArray vs)) = True"
| "isArray v = False"

section \<open>Data model\<close>

text \<open>
  Modelled from the spec: the types \<open>Character\<close> and \<open>Page\<close> are imported from
  \<open>'../types'\<close>, which is not among the sources. The spec (section 3) gives a
  character a name, an optional description, a sheet image and zero or more
  reference images, and a page a scene description and an optional generated
  image. The fields keep the names the source reads them by.
\<close>

record character =
  name :: string
  description :: "string option"
  sheetImage :: string
  referenceImages :: "string list"

record page =
  generatedImage :: "string option"
  sceneDescription :: string

text \<open>The previous page of \<open>generateLayoutProposal\<close>, typed in place:
  \<open>{ proposalImage: string, sceneDescription: string }\<close>.\<close>

record layoutPage =
  proposalImage :: string
  layoutSceneDescription :: string

datatype colorMode = Color | Monochrome

subsection \<open>Requests\<close>

text \<open>
  The argument of \<open>ai.models.generateContent\<close>: the model's name, the parts and
  the configuration, which asks either for JSON of a schema or for the two
  modalities. The descriptions inside the schemas are prose for the backend and
  are left out.
\<close>

datatype schema =
    STRING
  | INTEGER
  | BOOLEAN
  | ARRAY schema
  | OBJECT "(string \<times> schema) list" "string list"

datatype modality = IMAGE | TEXT

datatype generateContentConfig =
    JsonResponse schema
  | ResponseModalities "modality list"

record request =
  model :: string
  contents :: "part list"
  requestConfig :: generateContentConfig

subsection \<open>Responses\<close>

text \<open>
  Modelled from the spec: the response type is the SDK's. The spec (section 6)
  gives a response zero or more candidates, each a list of parts, a part being
  inline binary data with a media type, or text. The source reads both fields of
  every part, so a part has both, each possibly \<open>undefined\<close>. \<open>response.text\<close>,
  which the SDK computes, is taken as given with the response.
\<close>

record blob =
  mimeType :: string
  data :: string

record responsePart =
  inlineData :: "blob option"
  partText :: "string option"

record response =
  candidates :: "responsePart list list"
  responseText :: "string option"

text \<open>\<open>GeneratedContent\<close>, the result of \<open>generateMangaPage\<close>:
  \<open>{ image, text }\<close>, both \<open>null\<close> at first.\<close>

record generatedContent =
  image :: "string option"
  contentText :: "string option"

text \<open>Every failure of the source is \<open>throw new Error(message)\<close>.\<close>

datatype error = Error string

text \<open>The backend: one call, which answers or fails.\<close>

type_synonym backend = "request \<Rightarrow> error + response"

section \<open>Building the requests\<close>

definition descriptionOrDefault :: "character \<Rightarrow> string" where
  \<open>descriptionOrDefault char =
     (case description char of
        None \<Rightarrow> ''No description provided.''
      | Some d \<Rightarrow> (if d = [] then ''No description provided.'' else d))\<close>

definition colorStyle :: "colorMode \<Rightarrow> string" where
  \<open>colorStyle colorMode =
     (if colorMode = Monochrome
     then ''black and white (monochrome)''
     else ''full color'')\<close>

subsection \<open>\<open>generateDetailedStorySuggestion\<close>\<close>

definition characterProfile :: "character \<Rightarrow> string" where
  \<open>characterProfile char =
     ''- **'' @
     name char @
     '':** '' @
     descriptionOrDefault char @
     ''\<newline>''\<close>

definition previousPageLabel :: "nat \<Rightarrow> page \<Rightarrow> string" where
  \<open>previousPageLabel index page =
     ''\<newline>'' @
     ''\<newline>'' @
     ''**[Previous Page '' @
     showNat (index + 1) @
     '']**\<newline>'' @
     ''*Script:* '' @
     sceneDescription page @
     ''\<newline>'' @
     ''*Image:* [Image '' @
     showNat (index + 1) @
     '' is attached]''\<close>

text \<open>
  \<^verbatim>\<open>
  previousPages.forEach((page, index) => {
      if (page.generatedImage && page.sceneDescription) {
          contextPrompt += `...[Previous Page ${index + 1}]...[Image ${index + 1} is attached]`;
          const mimeType = page.generatedImage.match(/data:(image\/.*?);/)?.[1] || 'image/png';
          previousPagesContent.push(base64ToGeminiPart(page.generatedImage, mimeType));
      }
  });
  \<close>
  The loop, from \<open>index\<close> on, with the two variables it updates.
\<close>

fun forEachPreviousPage :: "nat \<Rightarrow> page list \<Rightarrow> string \<times> part list \<Rightarrow> string \<times> part list" where
  "forEachPreviousPage index [] (contextPrompt, previousPagesContent) =
     (contextPrompt, previousPagesContent)"
| "forEachPreviousPage index (page # pages) (contextPrompt, previousPagesContent) =
     forEachPreviousPage (index + 1) pages
       (case generatedImage page of
          None \<Rightarrow> (contextPrompt, previousPagesContent)
        | Some img \<Rightarrow>
            (if img \<noteq> [] \<and> sceneDescription page \<noteq> []
             then (contextPrompt @ previousPageLabel index page,
                   previousPagesContent @ [imagePart img])
             else (contextPrompt, previousPagesContent)))"

text \<open>The prompt and the attachments, as the source builds them up to the call.
  An absent list of previous pages is the empty list: the source treats both alike.\<close>

definition storyContext :: "string \<Rightarrow> string \<Rightarrow> character list \<Rightarrow> page list \<Rightarrow> string \<times> part list" where
  \<open>storyContext premise worldview characters previousPages =
     (let contextPrompt =
          ''You are a creative manga scriptwriter. A user wants help writing a script for '' @
          ''a single manga page.'';
        contextPrompt =
          (if worldview \<noteq> [] then contextPrompt @
          ''\<newline>'' @
          ''\<newline>'' @
          ''**IMPORTANT WORLDVIEW CONTEXT:**\<newline>'' @
          worldview @
          ''\<newline>'' @
          ''\<newline>'' @
          ''This worldview is the foundational truth of the story. Ensure your '' @
          ''suggestions are consistent with these rules.''
           else contextPrompt);
        contextPrompt =
          (if characters \<noteq> [] then contextPrompt @
          ''\<newline>'' @
          ''\<newline>'' @
          ''**CHARACTER PROFILES:**\<newline>'' @
          concat (map characterProfile characters) @
          ''Incorporate these character traits into their actions and dialogue.''
           else contextPrompt);
        (contextPrompt, previousPagesContent) =
          (if previousPages \<noteq> [] then
             forEachPreviousPage 0 previousPages
               (contextPrompt @
          ''\<newline>'' @
          ''\<newline>'' @
          ''**PREVIOUS PAGE CONTEXT:**\<newline>'' @
          ''This new page must be a direct continuation of the previous pages. Here is '' @
          ''the context from the immediately preceding pages, in chronological order:'', [])
           else (contextPrompt, []));
        contextPrompt =
          (if premise \<noteq> [] then contextPrompt @
          ''\<newline>'' @
          ''\<newline>'' @
          ''**USER'S PREMISE FOR THE NEW PAGE:**\<newline>'' @
          ''"'' @
          premise @
          ''"'' @
          ''\<newline>'' @
          ''\<newline>'' @
          ''**YOUR TASK:**\<newline>'' @
          ''Based on all the context provided (worldview, characters, previous pages, '' @
          ''user's premise), generate a detailed script for this new manga page.''
           else contextPrompt @
          ''\<newline>'' @
          ''\<newline>'' @
          ''**YOUR TASK:**\<newline>'' @
          ''The user has not provided a specific premise. Based on the worldview, '' @
          ''characters, and the context from previous pages, propose a logical and '' @
          ''interesting next page for the story. Generate a detailed script for this new '' @
          ''manga page.'');
        contextPrompt = contextPrompt @
          '' Break down the story into 2-4 panels. For each panel, provide a concise '' @
          ''description of the action/shot and any character dialogue. Panels can '' @
          ''describe environments, objects, or close-ups without characters if it serves '' @
          ''the story. **IMPORTANT: All dialogue MUST be in English.**''
      in (contextPrompt, previousPagesContent))\<close>

definition storySchema :: schema where
  "storySchema =
     OBJECT
       [(''summary'', STRING),
        (''panels'', ARRAY (OBJECT
           [(''panel'', INTEGER), (''description'', STRING), (''dialogue'', STRING)]
           [''panel'', ''description'']))]
       [''summary'', ''panels'']"

definition generateDetailedStorySuggestion_request ::
  "string \<Rightarrow> string \<Rightarrow> character list \<Rightarrow> page list \<Rightarrow> request" where
  "generateDetailedStorySuggestion_request premise worldview characters previousPages =
     (case storyContext premise worldview characters previousPages of
        (contextPrompt, previousPagesContent) \<Rightarrow>
          \<lparr>model = ''gemini-2.5-flash'',
           contents = TextPart contextPrompt # previousPagesContent,
           requestConfig = JsonResponse storySchema\<rparr>)"

subsection \<open>\<open>generateLayoutProposal\<close>\<close>

text \<open>
  \<^verbatim>\<open>
  const ASPECT_RATIO_CONFIG: { [key: string]: { w: number, h: number, value: string } } = {
      'A4': { w: 595, h: 842, value: '210:297' },
      'Portrait (3:4)': { w: 600, h: 800, value: '3:4' },
      'Square (1:1)': { w: 800, h: 800, value: '1:1' },
      'Widescreen (16:9)': { w: 1280, h: 720, value: '16:9' }
  };
  \<close>
\<close>

record profile =
  profile_w :: nat
  profile_h :: nat
  profile_value :: string

definition A4 :: profile where
  "A4 = \<lparr>profile_w = 595, profile_h = 842, profile_value = ''210:297''\<rparr>"

definition ASPECT_RATIO_CONFIG :: "(string \<times> profile) list" where
  "ASPECT_RATIO_CONFIG =
     [(''A4'', A4),
      (''Portrait (3:4)'', \<lparr>profile_w = 600, profile_h = 800, profile_value = ''3:4''\<rparr>),
      (''Square (1:1)'', \<lparr>profile_w = 800, profile_h = 800, profile_value = ''1:1''\<rparr>),
      (''Widescreen (16:9)'', \<lparr>profile_w = 1280, profile_h = 720, profile_value = ''16:9''\<rparr>)]"

text \<open>
  \<open>ASPECT_RATIO_CONFIG\<close> is an object literal, so \<open>ASPECT_RATIO_CONFIG[key]\<close>
  finds, besides the four own properties, the properties every object inherits
  from \<open>Object.prototype\<close>: functions, and the prototype object itself under
  \<open>__proto__\<close>. Each of them is truthy and has no property \<open>w\<close>, \<open>h\<close> or \<open>value\<close>.
\<close>

definition Object_prototype :: "string list" where
  "Object_prototype =
     [''constructor'', ''hasOwnProperty'', ''isPrototypeOf'', ''propertyIsEnumerable'',
      ''toLocaleString'', ''toString'', ''valueOf'', ''__proto__'',
      ''__defineGetter__'', ''__defineSetter__'', ''__lookupGetter__'', ''__lookupSetter__'']"

datatype configValue = Entry profile | Inherited string

definition lookupConfig :: "string \<Rightarrow> configValue option" where
  "lookupConfig key =
     (case map_of ASPECT_RATIO_CONFIG key of
        Some p \<Rightarrow> Some (Entry p)
      | None \<Rightarrow> (if key \<in> set Object_prototype then Some (Inherited key) else None))"

text \<open>\<^verbatim>\<open>const config = ASPECT_RATIO_CONFIG[aspectRatioKey] || ASPECT_RATIO_CONFIG['A4'];\<close>
  The second lookup finds the first entry of the table.\<close>

definition selectConfig :: "string \<Rightarrow> configValue" where
  "selectConfig aspectRatioKey =
     (case lookupConfig aspectRatioKey of
        Some c \<Rightarrow> c
      | None \<Rightarrow> Entry A4)"

fun config_w :: "configValue \<Rightarrow> nat option" where
  "config_w (Entry p) = Some (profile_w p)"
| "config_w (Inherited k) = None"

fun config_h :: "configValue \<Rightarrow> nat option" where
  "config_h (Entry p) = Some (profile_h p)"
| "config_h (Inherited k) = None"

fun config_value :: "configValue \<Rightarrow> string option" where
  "config_value (Entry p) = Some (profile_value p)"
| "config_value (Inherited k) = None"

definition layoutPrompt :: "string \<Rightarrow> bool \<Rightarrow> configValue \<Rightarrow> layoutPage option \<Rightarrow> string" where
  \<open>layoutPrompt story hasCharacters config previousPage =
     (let aspectRatioValue = config_value config in
       ''\<newline>'' @
       ''        You are an expert manga storyboard artist. Your task is to create a '' @
       ''visual guide for a user by generating a single, rough, grayscale sketch of a '' @
       ''manga page.\<newline>'' @
       ''\<newline>'' @
       ''        **Core Objective:**\<newline>'' @
       ''        Your primary goal is to create a DYNAMIC and VISUALLY INTERESTING '' @
       ''panel layout that reflects professional manga storyboarding techniques. The '' @
       ''panels should guide the reader's eye and control the pacing of the story.\<newline>'' @
       ''\<newline>'' @
       ''        **Inputs Provided:**\<newline>'' @
       ''        1.  **Story:** A short narrative for the manga page.\<newline>'' @
       ''        2.  **Canvas Image:** This is the user's canvas. It may be blank or '' @
       ''contain existing drawings. This is your drawing surface.\<newline>'' @
       ''        3.  **Character Sheets:** '' @
       (if hasCharacters
        then ''Reference sheets for characters are provided.''
        else ''No character sheets provided.'') @
       ''\<newline>'' @
       ''        '' @
       (if previousPage \<noteq> None
        then ''4.  **Previous Page Image:** An image of the preceding page for context.''
        else '''') @
       ''\<newline>'' @
       ''\<newline>'' @
       ''\<newline>'' @
       ''        **CRITICAL INSTRUCTIONS for the SKETCH:**\<newline>'' @
       ''        1.  **Dimensions & Aspect Ratio:** The output sketch MUST fill the '' @
       ''entire canvas and have an exact aspect ratio of '' @
       templateStr aspectRatioValue @
       ''. Do not leave any empty margins or padding. The image should be sized '' @
       ''appropriately for a canvas of '' @
       templateNum (config_w config) @
       ''px width and '' @
       templateNum (config_h config) @
       ''px height.\<newline>'' @
       ''        2.  **Creative Panel Layout:** AVOID simple, boring grid layouts. Use '' @
       ''professional techniques:\<newline>'' @
       ''            - **Dynamic Angles:** Use diagonally cut panels for action or '' @
       ''unease.\<newline>'' @
       ''            - **Overlapping & Inset Panels:** Overlap panels to show '' @
       ''simultaneous actions or use inset panels for focus.\<newline>'' @
       ''            - **Varying Sizes & Shapes:** Mix large and small panels. Use '' @
       ''non-rectangular shapes to match the scene's mood.\<newline>'' @
       ''            - **Panel Breaking:** For high impact, have characters or effects '' @
       ''extend beyond the panel borders.\<newline>'' @
       ''        3.  **Canvas Integration:** The provided "Canvas Image" is your '' @
       ''drawing surface. If it contains existing user drawings, you MUST incorporate '' @
       ''them into your layout. Propose new panels and elements that complement or '' @
       ''complete the user's work. If it is a blank canvas, create a new layout from '' @
       ''scratch.\<newline>'' @
       ''        4.  **Content:**\<newline>'' @
       ''            - **Sketch, Not Final Art:** Use rough, simple lines and basic '' @
       ''shapes. This is a compositional guide.\<newline>'' @
       ''            - **Character Posing:** '' @
       (if hasCharacters
        then ''Place the characters (using their reference sheets for appearance) inside the '' @
             ''panels.''
        else ''Sketch generic characters inside the panels based on the story.'') @
       ''\<newline>'' @
       ''            - **Character-Free Panels:** If the story describes a panel with '' @
       ''only backgrounds or objects, DO NOT draw characters in it. Sketch the '' @
       ''described environment instead.\<newline>'' @
       ''        5.  **ABSOLUTELY NO TEXT:** The final output image MUST NOT contain '' @
       ''any text, labels, numbers, or annotations. It must be a pure visual sketch '' @
       ''ONLY.\<newline>'' @
       ''        '' @
       (if previousPage \<noteq> None
        then (''\<newline>'' @
              ''        **Visual Continuity:**\<newline>'' @
              ''        This page's layout MUST be a logical continuation of the provided '' @
              ''"Previous Page Image". Analyze its composition and ensure a smooth visual '' @
              ''transition. Maintain a consistent artistic style with the previous sketch.'')
        else '''') @
       ''\<newline>'' @
       ''\<newline>'' @
       ''        **Story to Illustrate:**\<newline>'' @
       ''        ---\<newline>'' @
       ''        '' @
       story @
       ''\<newline>'' @
       ''        ---\<newline>'' @
       ''    '')\<close>

text \<open>
  \<^verbatim>\<open>
  const parts = [{ text: prompt }];
  if (currentCanvasImage) { ... parts.push(base64ToGeminiPart(currentCanvasImage, mimeType)); }
  if (previousPage?.proposalImage) { ... parts.push(base64ToGeminiPart(previousPage.proposalImage, mimeType)); }
  parts.push(...characterParts);
  \<close>
\<close>

definition generateLayoutProposal_parts ::
  "string \<Rightarrow> character list \<Rightarrow> string \<Rightarrow> layoutPage option \<Rightarrow> string option \<Rightarrow> part list" where
  "generateLayoutProposal_parts story characters aspectRatioKey previousPage currentCanvasImage =
     (let config = selectConfig aspectRatioKey;
          hasCharacters = (length characters > 0);
          characterParts =
            (if hasCharacters then map (\<lambda>char. imagePart (sheetImage char)) characters else []);
          parts = [TextPart (layoutPrompt story hasCharacters config previousPage)];
          parts =
            (case currentCanvasImage of
               None \<Rightarrow> parts
             | Some img \<Rightarrow> (if img \<noteq> [] then parts @ [imagePart img] else parts));
          parts =
            (case previousPage of
               None \<Rightarrow> parts
             | Some prev \<Rightarrow>
                 (if proposalImage prev \<noteq> [] then parts @ [imagePart (proposalImage prev)]
                  else parts))
      in parts @ characterParts)"

definition generateLayoutProposal_request ::
  "string \<Rightarrow> character list \<Rightarrow> string \<Rightarrow> layoutPage option \<Rightarrow> string option \<Rightarrow> request" where
  "generateLayoutProposal_request story characters aspectRatioKey previousPage currentCanvasImage =
     \<lparr>model = ''gemini-2.5-flash-image-preview'',
      contents =
        generateLayoutProposal_parts story characters aspectRatioKey previousPage
          currentCanvasImage,
      requestConfig = ResponseModalities [IMAGE, TEXT]\<rparr>"

subsection \<open>The character sheets\<close>

definition characterSheetPrompt :: "string \<Rightarrow> colorMode \<Rightarrow> string" where
  \<open>characterSheetPrompt characterName colorMode =
     (''\<newline>'' @
      ''        You are a professional manga artist. Your task is to create a '' @
      ''character reference sheet for a character named "'' @
      characterName @
      ''".\<newline>'' @
      ''\<newline>'' @
      ''        **Instructions:**\<newline>'' @
      ''        1.  **Reference Images:** You have been provided with multiple '' @
      ''reference images. Synthesize the key features from ALL of them to create a '' @
      ''single, cohesive character design. For example, if one image shows a scar and '' @
      ''another shows the character's hairstyle, include both in the final design.\<newline>'' @
      ''        2.  **Style:** Generate the sheet in a clean, '' @
      colorStyle colorMode @
      '' manga style, suitable for an artist's reference.\<newline>'' @
      ''        3.  **Content & Layout:** The character sheet must include exactly '' @
      ''six poses, arranged in two rows:\<newline>'' @
      ''            - **Top Row (Headshots):** Three headshots showing different '' @
      ''views and expressions (e.g., side view, front view neutral expression, front '' @
      ''view smiling).\<newline>'' @
      ''            - **Bottom Row (Full Body):** Three full-body views (front, side, '' @
      ''and back).\<newline>'' @
      ''        4.  **Output:** Generate ONLY the final character sheet as a single '' @
      ''image. Do NOT include any text, labels, names, descriptions, or explanations '' @
      ''in your response. The output must be the image and nothing else.\<newline>'' @
      ''    '')\<close>

definition generateCharacterSheet_request :: "string list \<Rightarrow> string \<Rightarrow> colorMode \<Rightarrow> request" where
  "generateCharacterSheet_request referenceImagesBase64 characterName colorMode =
     \<lparr>model = ''gemini-2.5-flash-image-preview'',
      contents =
        TextPart (characterSheetPrompt characterName colorMode)
          # map imagePart referenceImagesBase64,
      requestConfig = ResponseModalities [IMAGE, TEXT]\<rparr>"

definition characterFromReferencePrompt :: "string \<Rightarrow> string \<Rightarrow> colorMode \<Rightarrow> string" where
  \<open>characterFromReferencePrompt characterName characterConcept colorMode =
     (''\<newline>'' @
      ''        You are a professional manga artist. Your task is to create a '' @
      ''**completely new and original character** named "'' @
      characterName @
      ''" by using existing character sheets purely as **ART STYLE REFERENCES**.\<newline>'' @
      ''\<newline>'' @
      ''        **CRITICAL INSTRUCTIONS - READ CAREFULLY:**\<newline>'' @
      ''        1.  **ART STYLE ONLY:** You have been provided with character sheets '' @
      ''to be used as **art style references only**. Analyze their line art, coloring '' @
      ''style (if applicable), shading techniques, and overall aesthetic. Your final '' @
      ''output's art style MUST be a synthesis of these references.\<newline>'' @
      ''        2.  **DO NOT COPY THE REFERENCE CHARACTERS. THIS IS THE MOST '' @
      ''IMPORTANT RULE.** You are creating a **NEW** character from the ground up. '' @
      ''You are strictly forbidden from copying or closely imitating the designs, '' @
      ''physical features (hair style, face shape, eyes), clothing, accessories, or '' @
      ''identities of the characters in the reference sheets. The references are for '' @
      ''the drawing *style*, not the character *design*.\<newline>'' @
      ''        3.  **NEW CHARACTER CONCEPT:** The new character, "'' @
      characterName @
      ''", MUST be based ENTIRELY on the following description: "'' @
      characterConcept @
      ''". This description is the single source of truth for the character's '' @
      ''appearance and design.\<newline>'' @
      ''        4.  **Style:** Generate the sheet in a clean, '' @
      colorStyle colorMode @
      '' manga style, matching the reference styles.\<newline>'' @
      ''        5.  **Content & Layout:** The character sheet must include exactly '' @
      ''six poses, arranged in two rows:\<newline>'' @
      ''            - **Top Row (Headshots):** Three headshots showing different '' @
      ''views and expressions (e.g., side view, front view neutral expression, front '' @
      ''view smiling).\<newline>'' @
      ''            - **Bottom Row (Full Body):** Three full-body views (front, side, '' @
      ''and back).\<newline>'' @
      ''        6.  **Output:** Generate ONLY the final character sheet as a single '' @
      ''image. Do NOT include any text, labels, names, descriptions, or explanations '' @
      ''in your response. The output must be the image and nothing else.\<newline>'' @
      ''    '')\<close>

definition generateCharacterFromReference_request ::
  "string list \<Rightarrow> string \<Rightarrow> string \<Rightarrow> colorMode \<Rightarrow> request" where
  "generateCharacterFromReference_request referenceSheetImagesBase64 characterName
       characterConcept colorMode =
     \<lparr>model = ''gemini-2.5-flash-image-preview'',
      contents =
        TextPart (characterFromReferencePrompt characterName characterConcept colorMode)
          # map imagePart referenceSheetImagesBase64,
      requestConfig = ResponseModalities [IMAGE, TEXT]\<rparr>"

definition editCharacterSheetPrompt :: "string \<Rightarrow> string \<Rightarrow> string" where
  \<open>editCharacterSheetPrompt characterName editPrompt =
     (''\<newline>'' @
      ''        You are a professional manga artist. Your task is to edit a character '' @
      ''reference sheet for a character named "'' @
      characterName @
      ''".\<newline>'' @
      ''\<newline>'' @
      ''        **Instructions:**\<newline>'' @
      ''        1.  **Reference Image:** Use the provided character sheet as the base.\<newline>'' @
      ''        2.  **Edit Request:** The user wants the following modification: "'' @
      editPrompt @
      ''".\<newline>'' @
      ''        3.  **Execution:** Apply the requested change to the character across '' @
      ''all poses on the sheet. Maintain the existing style, layout, and overall '' @
      ''design.\<newline>'' @
      ''        4.  **Output:** Generate ONLY the final, updated character sheet as a '' @
      ''single image. Do not include any text, labels, or explanations.\<newline>'' @
      ''    '')\<close>

definition editCharacterSheet_request :: "string \<Rightarrow> string \<Rightarrow> string \<Rightarrow> request" where
  "editCharacterSheet_request sheetImageBase64 characterName editPrompt =
     \<lparr>model = ''gemini-2.5-flash-image-preview'',
      contents =
        [TextPart (editCharacterSheetPrompt characterName editPrompt),
         imagePart sheetImageBase64],
      requestConfig = ResponseModalities [IMAGE, TEXT]\<rparr>"

subsection \<open>\<open>generateMangaPage\<close>\<close>

text \<open>
  \<^verbatim>\<open>assetsPrompt.replace(/^\s*(\d+)/gm,
      (match, n) => `    ${hasPreviousPage ? parseInt(n) + 1 : n}`)\<close>
  replaces, from the left, every match of the pattern: at the start of a line
  (\<open>lineStart\<close>: the start of the string, or after a line terminator), white space
  as far as it goes and then digits as far as they go, at least one. It is applied
  to \<open>assetsPrompt\<close> only, whose numbers have one digit.
\<close>

function renumber :: "bool \<Rightarrow> bool \<Rightarrow> string \<Rightarrow> string" where
  "renumber hasPreviousPage lineStart [] = []"
| "renumber hasPreviousPage lineStart (c # cs) =
     (if lineStart \<and> takeWhile isDigit (dropWhile isSpace (c # cs)) \<noteq> []
      then ''    ''
           @ (if hasPreviousPage
              then showNat (digitsValue 0 (takeWhile isDigit (dropWhile isSpace (c # cs))) + 1)
              else takeWhile isDigit (dropWhile isSpace (c # cs)))
           @ renumber hasPreviousPage False (dropWhile isDigit (dropWhile isSpace (c # cs)))
      else c # renumber hasPreviousPage (lineTerminator c) cs)"
  by pat_completeness auto
termination
proof (relation "measure (\<lambda>(hasPreviousPage, lineStart, s). length s)", goal_cases)
  case 1
  show ?case by simp
next
  case (2 hasPreviousPage lineStart c cs)
  have "length (dropWhile isDigit (dropWhile isSpace (c # cs)))
        < length (dropWhile isSpace (c # cs))"
    using 2 by (intro dropWhile_shorter) simp
  also have "\<dots> \<le> length (c # cs)"
    by (rule length_dropWhile_le)
  finally show ?case by simp
next
  case (3 hasPreviousPage lineStart c cs)
  show ?case by simp
qed

definition assetsPrompt :: string where
  \<open>assetsPrompt =
     ''\<newline>'' @
     ''    1.  **Character Sheets:** For each character that appears.\<newline>'' @
     ''    2.  **Panel Layout with Poses:** An image showing the panel composition '' @
     ''for the NEW page. This image ALSO CONTAINS visual pose guides for each '' @
     ''character, clearly labeled with the character's name.\<newline>'' @
     ''    3.  **Scene Script:** A detailed, panel-by-panel description of the '' @
     ''actions, expressions, and composition for the NEW page.\<newline>'' @
     ''  ''\<close>

definition characterReference :: "nat \<times> character \<Rightarrow> string" where
  \<open>characterReference = (\<lambda>(index, char).
       ''- **'' @
       name char @
       '':** Use the character sheet provided as "Character Reference '' @
       showNat (index + 1) @
       ''".'')\<close>

definition continuationText :: "page \<Rightarrow> string" where
  \<open>continuationText previousPage =
     ''\<newline>'' @
     ''**CRUCIAL CONTEXT - STORY CONTINUATION:**\<newline>'' @
     ''This page MUST be a direct continuation of the previous page provided. '' @
     ''Analyze the "Previous Page Image" and its script to ensure seamless narrative '' @
     ''and artistic continuity. Maintain character appearances, outfits, locations, '' @
     ''and a overall mood from the previous page.\<newline>'' @
     ''\<newline>'' @
     ''**Previous Page Script:**\<newline>'' @
     ''---\<newline>'' @
     sceneDescription previousPage @
     ''\<newline>'' @
     ''---\<newline>''\<close>

text \<open>\<^verbatim>\<open>const hasPreviousPage = previousPage && previousPage.generatedImage;\<close>,
  read for its truthiness only.\<close>

definition hasPreviousPageOf :: "page option \<Rightarrow> bool" where
  "hasPreviousPageOf previousPage =
     (case previousPage of
        None \<Rightarrow> False
      | Some prev \<Rightarrow> truthyStr (generatedImage prev))"

definition mangaPagePrompt ::
  "character list \<Rightarrow> string \<Rightarrow> colorMode \<Rightarrow> page option \<Rightarrow> bool \<Rightarrow> string" where
  \<open>mangaPagePrompt characters sceneDescription' colorMode previousPage generateEmptyBubbles =
     (let charactersInScene = characters;
          characterReferencePrompt =
            join ''\<newline>'' (map characterReference (enumerate 0 charactersInScene));
          hasPreviousPage = hasPreviousPageOf previousPage;
          continuationInstruction =
            (case previousPage of
               None \<Rightarrow> ''''
             | Some prev \<Rightarrow> (if hasPreviousPage then continuationText prev else ''''))
      in
       ''\<newline>'' @
       ''    You are an expert manga artist. Your task is to create a single manga '' @
       ''page based on the provided assets and a detailed script.\<newline>'' @
       ''\<newline>'' @
       ''    **Assets Provided:**\<newline>'' @
       ''    '' @
       (if hasPreviousPage
        then ''1.  **Previous Page Image:** An image of the preceding page for story context.''
        else '''') @
       ''\<newline>'' @
       ''    '' @
       renumber hasPreviousPage True assetsPrompt @
       ''\<newline>'' @
       ''\<newline>'' @
       ''    **Character References:**\<newline>'' @
       ''    '' @
       characterReferencePrompt @
       ''\<newline>'' @
       ''    \<newline>'' @
       ''    '' @
       continuationInstruction @
       ''\<newline>'' @
       ''\<newline>'' @
       ''    **Instructions for the NEW page:**\<newline>'' @
       ''    1.  **Crucial - Match Poses to Characters:** The Panel Layout image '' @
       ''labels each pose with a character's name. You MUST use the correct character '' @
       ''sheet for the named character and draw them in that pose. If there is a text '' @
       ''comment next to a character's pose, use it as a primary instruction for their '' @
       ''action.\<newline>'' @
       ''    2.  **Strictly Follow the Script:** The Scene Script is your guide for '' @
       ''expressions, shot composition, and narrative context. Execute these details '' @
       ''precisely. If the script describes a scene without characters (e.g., a '' @
       ''landscape, a close-up of an object), you MUST draw that scene instead of a '' @
       ''character.\<newline>'' @
       ''    3.  **Character Consistency & Count:** Draw the characters strictly '' @
       ''according to their reference sheets for appearance. **Crucially, only draw '' @
       ''the number of characters specified in the script and layout guide for each '' @
       ''panel. Do not add extra characters or omit specified characters.**\<newline>'' @
       ''    4.  **Panel Layout & Sizing:** Use the provided panel layout for the '' @
       ''comic's structure. **The relative size of each panel in the layout image '' @
       ''indicates its narrative importance. Larger panels should depict key moments '' @
       ''with more detail, dynamic composition, and focus.**\<newline>'' @
       ''    5.  **Color & Style:** Create the manga in '' @
       colorStyle colorMode @
       ''. **All text and speech bubbles must have bold, clear, and thick black '' @
       ''outlines.**\<newline>'' @
       ''    6.  **Speech Bubbles:** '' @
       (if generateEmptyBubbles
        then (''The panel layout image may contain speech bubble shapes. You MUST draw these '' @
              ''speech bubbles, but leave them COMPLETELY EMPTY. Do NOT add any text, '' @
              ''dialogue, or sound effects inside them.'')
        else (''If the script includes dialogue, place it inside the speech bubbles drawn in '' @
              ''the panel layout. If there are no bubbles in the layout but there is '' @
              ''dialogue, create appropriate bubbles.'')) @
       ''\<newline>'' @
       ''    7.  **Final Output:** Generate ONLY the final manga page as a single '' @
       ''image. Do not include any text, descriptions, or explanations.\<newline>'' @
       ''\<newline>'' @
       ''    **Scene Script for the NEW Page:**\<newline>'' @
       ''    ---\<newline>'' @
       ''    '' @
       sceneDescription' @
       ''\<newline>'' @
       ''    ---\<newline>'' @
       ''  '')\<close>

text \<open>
  \<^verbatim>\<open>
  const parts = [{ text: prompt }];
  if (hasPreviousPage) { ... parts.push(base64ToGeminiPart(previousPage.generatedImage, prevPageMimeType)); }
  parts.push(...characterParts, panelLayoutPart);
  \<close>
\<close>

definition generateMangaPage_parts ::
  "character list \<Rightarrow> string \<Rightarrow> string \<Rightarrow> colorMode \<Rightarrow> page option \<Rightarrow> bool \<Rightarrow> part list" where
  "generateMangaPage_parts characters panelLayoutImageBase64 sceneDescription' colorMode
       previousPage generateEmptyBubbles =
     (let panelLayoutPart = imagePart panelLayoutImageBase64;
          charactersInScene = characters;
          characterParts = map (\<lambda>char. imagePart (sheetImage char)) charactersInScene;
          parts =
            [TextPart (mangaPagePrompt characters sceneDescription' colorMode previousPage
               generateEmptyBubbles)];
          parts =
            (case previousPage of
               None \<Rightarrow> parts
             | Some prev \<Rightarrow>
                 (case generatedImage prev of
                    None \<Rightarrow> parts
                  | Some img \<Rightarrow> (if img \<noteq> [] then parts @ [imagePart img] else parts)))
      in parts @ characterParts @ [panelLayoutPart])"

definition generateMangaPage_request ::
  "character list \<Rightarrow> string \<Rightarrow> string \<Rightarrow> colorMode \<Rightarrow> page option \<Rightarrow> bool \<Rightarrow> request" where
  "generateMangaPage_request characters panelLayoutImageBase64 sceneDescription' colorMode
       previousPage generateEmptyBubbles =
     \<lparr>model = ''gemini-2.5-flash-image-preview'',
      contents =
        generateMangaPage_parts characters panelLayoutImageBase64 sceneDescription' colorMode
          previousPage generateEmptyBubbles,
      requestConfig = ResponseModalities [IMAGE, TEXT]\<rparr>"

subsection \<open>\<open>colorizeMangaPage\<close> and \<open>editMangaPage\<close>\<close>

definition colorReference :: "character \<Rightarrow> string" where
  \<open>colorReference char =
     ''- **'' @
     name char @
     '':** Use the provided full-color reference images for ACCURATE color '' @
     ''information (hair, eyes, clothing, etc.). Use the black-and-white sheet to '' @
     ''understand the character's design and line art.''\<close>

definition colorizePrompt :: "character list \<Rightarrow> string" where
  \<open>colorizePrompt characters =
     (let characterReferencePrompt = join ''\<newline>'' (map colorReference characters) in
       ''\<newline>'' @
       ''        You are a professional digital colorist for manga. Your task is to '' @
       ''fully color a monochrome manga page.\<newline>'' @
       ''\<newline>'' @
       ''        **Assets Provided:**\<newline>'' @
       ''        1.  **Monochrome Manga Page:** The page that needs to be colored.\<newline>'' @
       ''        2.  **Character References:** For each character, one or more '' @
       ''full-color images and one black-and-white character sheet are provided in '' @
       ''sequence.\<newline>'' @
       ''\<newline>'' @
       ''        **Character Color & Design References:**\<newline>'' @
       ''        '' @
       characterReferencePrompt @
       ''\<newline>'' @
       ''\<newline>'' @
       ''        **Instructions:**\<newline>'' @
       ''        1.  **Full Colorization:** You must color the ENTIRE page. This '' @
       ''includes all characters, objects, backgrounds, and effects within every '' @
       ''panel. Do not leave any areas monochrome.\<newline>'' @
       ''        2.  **CRUCIAL - Accurate Character Colors:** This is the most '' @
       ''important rule. You MUST use the provided ORIGINAL, FULL-COLOR reference '' @
       ''images to ensure that each character is colored with their correct and '' @
       ''consistent color scheme. If multiple color references are given for one '' @
       ''character, synthesize the colors logically.\<newline>'' @
       ''        3.  **Maintain Line Art:** Preserve the original black line art. Do '' @
       ''not redraw or alter it. Your primary task is to add color to the provided '' @
       ''black and white image, not to create a new drawing.\<newline>'' @
       ''        4.  **Cohesive Palette:** Ensure the background and environment '' @
       ''colors are plausible and create a cohesive mood for the scene.\<newline>'' @
       ''        5.  **Output:** Generate ONLY the final, fully colored manga page as '' @
       ''a single image.\<newline>'' @
       ''    '')\<close>

definition colorizeMangaPage_request :: "string \<Rightarrow> character list \<Rightarrow> request" where
  "colorizeMangaPage_request monochromePageBase64 characters =
     (let pagePart = imagePart monochromePageBase64;
          characterParts =
            concat (map (\<lambda>char. map imagePart (referenceImages char)
                                  @ [imagePart (sheetImage char)]) characters)
      in \<lparr>model = ''gemini-2.5-flash-image-preview'',
          contents = TextPart (colorizePrompt characters) # pagePart # characterParts,
          requestConfig = ResponseModalities [IMAGE, TEXT]\<rparr>)"

text \<open>An absent list of reference images is the empty list: the source treats
  both alike.\<close>

definition editMangaPagePrompt :: "string \<Rightarrow> string option \<Rightarrow> string list \<Rightarrow> string" where
  \<open>editMangaPagePrompt prompt maskImageBase64 referenceImagesBase64 =
     (let fullPrompt =
          ''You are a professional manga artist and expert digital editor. Your task is '' @
          ''to edit the provided manga page image based on the user's instructions.'';
        fullPrompt =
          (if truthyStr maskImageBase64
           then fullPrompt @
                ''\<newline>'' @
                ''\<newline>'' @
                ''**CRITICAL INSTRUCTIONS FOR MASKING:**\<newline>'' @
                ''You have been provided with an original image and a mask image. Your task is '' @
                ''to **COMPLETELY RE-RENDER** the area of the original image that is **WHITE** '' @
                ''in the mask image. \<newline>'' @
                ''- The **BLACK** areas of the mask must remain **COMPLETELY UNCHANGED** from '' @
                ''the original image. \<newline>'' @
                ''- You must apply the user's text prompt to the **ENTIRE WHITE MASKED AREA**. '' @
                ''The change should be comprehensive and not subtle.\<newline>'' @
                ''- Ensure the result blends seamlessly and naturally with the unchanged parts '' @
                ''of the image.\<newline>'' @
                ''\<newline>'' @
                ''**User's Request:** "'' @
                prompt @
                ''"\<newline>''
           else fullPrompt @
                ''\<newline>'' @
                ''\<newline>'' @
                ''**User's Request:** "'' @
                prompt @
                ''"\<newline>'' @
                ''\<newline>'' @
                ''**Instructions:**\<newline>'' @
                ''Apply the requested changes to the entire image as appropriate.\<newline>'');
        fullPrompt =
          (if length referenceImagesBase64 > 0
           then fullPrompt @
                ''\<newline>'' @
                ''**IMPORTANT REFERENCE IMAGES:**\<newline>'' @
                ''You have been provided with '' @
                showNat (length referenceImagesBase64) @
                '' reference image(s). These may include character sheets or other visual '' @
                ''guides.\<newline>'' @
                ''- If your task involves adding or correcting a character, you **MUST** use '' @
                ''the provided reference images to draw them with perfect accuracy to their '' @
                ''design, features, and clothing.\<newline>'' @
                ''- Use these images as the primary source of truth for style and content in '' @
                ''your edits.''
           else fullPrompt)
      in fullPrompt @
          ''\<newline>'' @
          ''**Final Output:** You must generate ONLY the final, edited image. Do not '' @
          ''include any text, labels, or explanations in your response.'')\<close>

definition editMangaPage_request ::
  "string \<Rightarrow> string \<Rightarrow> string option \<Rightarrow> string list \<Rightarrow> request" where
  "editMangaPage_request originalImageBase64 prompt maskImageBase64 referenceImagesBase64 =
     (let parts =
            [TextPart (editMangaPagePrompt prompt maskImageBase64 referenceImagesBase64),
             imagePart originalImageBase64];
          parts =
            (case maskImageBase64 of
               None \<Rightarrow> parts
             | Some maskImage \<Rightarrow>
                 (if maskImage \<noteq> [] then parts @ [imagePart maskImage] else parts));
          parts = parts @ map imagePart referenceImagesBase64
      in \<lparr>model = ''gemini-2.5-flash-image-preview'',
          contents = parts,
          requestConfig = ResponseModalities [IMAGE, TEXT]\<rparr>)"

subsection \<open>\<open>analyzeAndSuggestCorrections\<close>\<close>

definition analysisPrompt :: "string \<Rightarrow> character list \<Rightarrow> string" where
  \<open>analysisPrompt sceneDescription' characters =
     (let characterInfo = join ''\<newline>'' (map (\<lambda>c. ''- '' @
                                                                name c) characters)
      in
       ''\<newline>'' @
       ''You are a meticulous Quality Assurance assistant for a manga creation tool. '' @
       ''Your task is to analyze a generated manga page and suggest corrections if it '' @
       ''deviates from the original plan.\<newline>'' @
       ''\<newline>'' @
       ''**Provided Assets:**\<newline>'' @
       ''1.  **Layout & Pose Guide (Image 1):** This is the user's plan. It shows the '' @
       ''panel layout and contains labeled skeleton poses for characters.\<newline>'' @
       ''2.  **Generated Manga Page (Image 2):** This is the final image produced by '' @
       ''the AI artist.\<newline>'' @
       ''3.  **Scene Script:** The text description of what should happen on the page.\<newline>'' @
       ''4.  **Character List:** The names of characters involved.\<newline>'' @
       ''\<newline>'' @
       ''**Your Analysis Task:**\<newline>'' @
       ''Carefully compare the "Generated Manga Page" against the "Layout & Pose '' @
       ''Guide" and the "Scene Script". Look for discrepancies such as:\<newline>'' @
       ''-   **Missing or Incorrect Characters:** Is a character from the script/guide '' @
       ''missing, or is the wrong character used?\<newline>'' @
       ''-   **Incorrect Poses:** Does the character's pose in the final image '' @
       ''significantly differ from the skeleton guide?\<newline>'' @
       ''-   **Layout Deviations:** Are the panel shapes and arrangement different '' @
       ''from the guide?\<newline>'' @
       ''-   **Script Contradictions:** Does the final image contradict the actions or '' @
       ''descriptions in the script?\<newline>'' @
       ''-   **Character Duplication:** Check if the same character appears multiple '' @
       ''times within the same panel or in a way that is logically impossible for the '' @
       ''scene. For example, a character cannot be in two places at once unless the '' @
       ''script specifies a clone, twin, or magical effect.\<newline>'' @
       ''-   **Contextual Inappropriateness:** Analyze if characters are placed in '' @
       ''situations that contradict their role or the scene's logic. For example, a '' @
       ''character who is supposed to be hiding should not be in the open. A character '' @
       ''described as sad should not have an inappropriately cheerful pose.\<newline>'' @
       ''\<newline>'' @
       ''**Your Output:**\<newline>'' @
       ''You MUST respond with a single JSON object with the following structure:\<newline>'' @
       ''{\<newline>'' @
       ''  "analysis": "A brief, human-readable summary of your findings. Describe any '' @
       ''discrepancies you found, or state that the image is accurate.",\<newline>'' @
       ''  "has_discrepancies": boolean, // true if you found any issues, false '' @
       ''otherwise.\<newline>'' @
       ''  "correction_prompt": "If has_discrepancies is true, write a detailed, '' @
       ''specific, and clear instruction prompt for an image editing AI to fix ALL the '' @
       ''identified issues in one go. If false, this should be an empty string."\<newline>'' @
       ''}\<newline>'' @
       ''\<newline>'' @
       ''**Example Correction Prompt:**\<newline>'' @
       ''"In the top-left panel, redraw the character 'Kaito' to match the skeleton '' @
       ''pose, making sure he is holding a sword. In the bottom panel, add the '' @
       ''character 'Anya' who is currently missing; she should be shown looking '' @
       ''surprised. On the right, the two instances of 'Kaito' are a mistake, remove '' @
       ''the one that is further back. Keep the art style consistent."\<newline>'' @
       ''\<newline>'' @
       ''**Scene Script:**\<newline>'' @
       ''---\<newline>'' @
       sceneDescription' @
       ''\<newline>'' @
       ''---\<newline>'' @
       ''\<newline>'' @
       ''**Characters in Scene:**\<newline>'' @
       characterInfo @
       ''\<newline>'')\<close>

definition analysisSchema :: schema where
  "analysisSchema =
     OBJECT
       [(''analysis'', STRING), (''has_discrepancies'', BOOLEAN), (''correction_prompt'', STRING)]
       [''analysis'', ''has_discrepancies'', ''correction_prompt'']"

definition analyzeAndSuggestCorrections_request ::
  "string \<Rightarrow> string \<Rightarrow> string \<Rightarrow> character list \<Rightarrow> request" where
  "analyzeAndSuggestCorrections_request panelLayoutImage generatedImage' sceneDescription'
       characters =
     (let layoutPart = imagePart panelLayoutImage;
          generatedPart = imagePart generatedImage'
      in \<lparr>model = ''gemini-2.5-flash'',
          contents = [TextPart (analysisPrompt sceneDescription' characters), layoutPart,
                      generatedPart],
          requestConfig = JsonResponse analysisSchema\<rparr>)"

section \<open>Reading the responses\<close>

text \<open>\<^verbatim>\<open>parts.find(part => part.inlineData)\<close> and
  \<^verbatim>\<open>parts.find(part => part.text)\<close>: the first part whose field is truthy.\<close>

definition findInlineData :: "responsePart list \<Rightarrow> responsePart option" where
  "findInlineData parts = find (\<lambda>part. inlineData part \<noteq> None) parts"

definition findText :: "responsePart list \<Rightarrow> responsePart option" where
  "findText parts = find (\<lambda>part. truthyStr (partText part)) parts"

text \<open>The message that quotes the model's text:
  \<^verbatim>\<open>`The AI did not return an image. Response: "${textPartResponse.text}"`\<close>.\<close>

definition noImageResponse :: "string \<Rightarrow> string" where
  \<open>noImageResponse t =
     ''The AI did not return an image. Response: "'' @
     t @
     ''"''\<close>

text \<open>
  \<^verbatim>\<open>
  if (!response.candidates?.length) { throw new Error("... layout proposal."); }
  const imagePartResponse = response.candidates[0].content.parts.find(part => part.inlineData);
  const textPartResponse = response.candidates[0].content.parts.find(part => part.text);
  if (!imagePartResponse?.inlineData) {
      if (textPartResponse?.text) { throw new Error(`... Response: "${textPartResponse.text}"`); }
      throw new Error("The AI did not return an image for the layout proposal.");
  }
  const proposalImage = `data:${...mimeType};base64,${...data}`;
  return { proposalImage };
  \<close>
  The result is the \<open>proposalImage\<close>.
\<close>

definition generateLayoutProposal_response :: "response \<Rightarrow> error + string" where
  \<open>generateLayoutProposal_response response =
     (case candidates response of
        [] \<Rightarrow> Inl (Error ''The AI did not return a valid response for the layout proposal.'')
      | parts # _ \<Rightarrow>
          (let imagePartResponse = findInlineData parts;
               textPartResponse = findText parts
           in case Option.bind imagePartResponse inlineData of
                None \<Rightarrow>
                  (case Option.bind textPartResponse partText of
                     None \<Rightarrow> Inl (Error ''The AI did not return an image for the layout proposal.'')
                   | Some t \<Rightarrow>
                       (if t \<noteq> [] then Inl (Error (noImageResponse t))
                        else Inl (Error ''The AI did not return an image for the layout proposal.'')))
              | Some b \<Rightarrow> Inr (dataUri (mimeType b) (data b))))\<close>

text \<open>
  \<^verbatim>\<open>
  if (!response.candidates?.length) { throw new Error("... It may have been blocked."); }
  const imagePartResponse = response.candidates[0].content.parts.find(part => part.inlineData);
  if (imagePartResponse?.inlineData) { return `data:${responseMimeType};base64,${base64ImageBytes}`; }
  const textPartResponse = response.candidates[0].content.parts.find(part => part.text);
  if (textPartResponse?.text) { throw new Error(`... Response: "${textPartResponse.text}"`); }
  throw new Error("The AI did not return an image for the character sheet.");
  \<close>
\<close>

definition generateCharacterSheet_response :: "response \<Rightarrow> error + string" where
  \<open>generateCharacterSheet_response response =
     (case candidates response of
        [] \<Rightarrow>
          Inl (Error
            (''The AI did not return a valid response for the character sheet. It may have '' @
             ''been blocked.''))
      | parts # _ \<Rightarrow>
          (case Option.bind (findInlineData parts) inlineData of
             Some b \<Rightarrow> Inr (dataUri (mimeType b) (data b))
           | None \<Rightarrow>
               (case Option.bind (findText parts) partText of
                  None \<Rightarrow> Inl (Error ''The AI did not return an image for the character sheet.'')
                | Some t \<Rightarrow>
                    (if t \<noteq> [] then Inl (Error (noImageResponse t))
                     else Inl (Error ''The AI did not return an image for the character sheet.'')))))\<close>

definition generateCharacterFromReference_response :: "response \<Rightarrow> error + string" where
  \<open>generateCharacterFromReference_response response =
     (case candidates response of
        [] \<Rightarrow>
          Inl (Error
            (''The AI did not return a valid response for the character sheet. It may have '' @
             ''been blocked.''))
      | parts # _ \<Rightarrow>
          (case Option.bind (findInlineData parts) inlineData of
             Some b \<Rightarrow> Inr (dataUri (mimeType b) (data b))
           | None \<Rightarrow>
               (case Option.bind (findText parts) partText of
                  None \<Rightarrow> Inl (Error ''The AI did not return an image for the character sheet.'')
                | Some t \<Rightarrow>
                    (if t \<noteq> [] then Inl (Error (noImageResponse t))
                     else Inl (Error ''The AI did not return an image for the character sheet.'')))))\<close>

text \<open>
  \<^verbatim>\<open>
  if (!response.candidates?.length) { throw new Error("... character sheet edit."); }
  const imagePartResponse = response.candidates[0].content.parts.find(part => part.inlineData);
  if (imagePartResponse?.inlineData) { return `data:${...mimeType};base64,${...data}`; }
  throw new Error("The AI did not return an updated image for the character sheet.");
  \<close>
\<close>

definition editCharacterSheet_response :: "response \<Rightarrow> error + string" where
  \<open>editCharacterSheet_response response =
     (case candidates response of
        [] \<Rightarrow> Inl (Error ''The AI did not return a valid response for the character sheet edit.'')
      | parts # _ \<Rightarrow>
          (case Option.bind (findInlineData parts) inlineData of
             Some b \<Rightarrow> Inr (dataUri (mimeType b) (data b))
           | None \<Rightarrow> Inl (Error ''The AI did not return an updated image for the character sheet.'')))\<close>

text \<open>
  \<^verbatim>\<open>
  for (const part of response.candidates[0].content.parts) {
      if (part.inlineData) {
        ...
        result.image = `data:${mimeType};base64,${base64ImageBytes}`;
      } else if (part.text) {
        result.text = part.text;
      }
  }
  \<close>
  One round of the loop:
\<close>

definition scanPart :: "generatedContent \<Rightarrow> responsePart \<Rightarrow> generatedContent" where
  "scanPart result part =
     (case inlineData part of
        Some b \<Rightarrow> result\<lparr>image := Some (dataUri (mimeType b) (data b))\<rparr>
      | None \<Rightarrow>
          (if truthyStr (partText part) then result\<lparr>contentText := partText part\<rparr>
           else result))"

text \<open>\<open>s || ""\<close>.\<close>

fun orEmpty :: "string option \<Rightarrow> string" where
  "orEmpty None = []"
| "orEmpty (Some s) = s"

text \<open>
  \<^verbatim>\<open>
  let result: GeneratedContent = { image: null, text: null };
  if (!response.candidates?.length) {
    throw new Error("... It may have been blocked. " + (response.text || ""));
  }
  for (...) {...}
  if (!result.image) {
      throw new Error("... It might have refused the request. " + (result.text || ""));
  }
  return result;
  \<close>
\<close>

definition generateMangaPage_response :: "response \<Rightarrow> error + generatedContent" where
  \<open>generateMangaPage_response response =
     (case candidates response of
        [] \<Rightarrow>
          Inl (Error (''The AI did not return a valid response. It may have been blocked. ''
                      @ orEmpty (responseText response)))
      | parts # _ \<Rightarrow>
          (let result = foldl scanPart \<lparr>image = None, contentText = None\<rparr> parts
           in if \<not> truthyStr (image result)
              then Inl (Error (''The AI did not return an image. It might have refused the request. ''
                               @ orEmpty (contentText result)))
              else Inr result))\<close>

definition colorizeMangaPage_response :: "response \<Rightarrow> error + string" where
  \<open>colorizeMangaPage_response response =
     (case candidates response of
        [] \<Rightarrow> Inl (Error ''The AI did not return a valid response for colorization.'')
      | parts # _ \<Rightarrow>
          (case Option.bind (findInlineData parts) inlineData of
             Some b \<Rightarrow> Inr (dataUri (mimeType b) (data b))
           | None \<Rightarrow> Inl (Error ''The AI did not return a colored image.'')))\<close>

definition editMangaPage_response :: "response \<Rightarrow> error + string" where
  \<open>editMangaPage_response response =
     (case candidates response of
        [] \<Rightarrow> Inl (Error ''The AI did not return a valid response for the image edit.'')
      | parts # _ \<Rightarrow>
          (case Option.bind (findInlineData parts) inlineData of
             Some b \<Rightarrow> Inr (dataUri (mimeType b) (data b))
           | None \<Rightarrow>
               (case Option.bind (findText parts) partText of
                  None \<Rightarrow> Inl (Error ''The AI did not return an edited image.'')
                | Some t \<Rightarrow>
                    (if t \<noteq> [] then Inl (Error (noImageResponse t))
                     else Inl (Error ''The AI did not return an edited image.'')))))\<close>

text \<open>
  The two operations that ask for JSON. \<open>JSON.parse\<close> turns its argument into a
  string first, so an \<open>undefined\<close> text is parsed as \<open>undefined\<close>, which is not JSON.
  \<^verbatim>\<open>
  try {
      const jsonText = response.text;
      const suggestion = JSON.parse(jsonText) as StorySuggestion;
      // Basic validation
      if (suggestion && suggestion.summary && Array.isArray(suggestion.panels)) {
          return suggestion;
      }
      throw new Error("Parsed JSON does not match the expected structure.");
  } catch (e) {
      console.error("Failed to parse story suggestion JSON:", e);
      throw new Error("The AI returned an invalid story structure. Please try again.");
  }
  \<close>
  The cast changes nothing: the result is the parsed value.
\<close>

definition jsonTextOf :: "response \<Rightarrow> string" where
  "jsonTextOf response =
     (case responseText response of
        None \<Rightarrow> ''undefined''
      | Some jsonText \<Rightarrow> jsonText)"

definition invalidStoryStructure :: error where
  \<open>invalidStoryStructure = Error ''The AI returned an invalid story structure. Please try again.''\<close>

definition generateDetailedStorySuggestion_response :: "response \<Rightarrow> error + json" where
  "generateDetailedStorySuggestion_response response =
     (case JSON_parse (jsonTextOf response) of
        None \<Rightarrow> Inl invalidStoryStructure
      | Some suggestion \<Rightarrow>
          (if truthy suggestion
              \<and> truthyProperty (ownProperty suggestion ''summary'')
              \<and> isArray (ownProperty suggestion ''panels'')
           then Inr suggestion
           else Inl invalidStoryStructure))"

text \<open>
  \<^verbatim>\<open>
  try {
      const jsonText = response.text;
      const result = JSON.parse(jsonText) as AnalysisResult;
      return result;
  } catch (e) {
      console.error("Failed to parse analysis JSON:", e);
      throw new Error("The AI returned an invalid analysis structure.");
  }
  \<close>
\<close>

definition invalidAnalysisStructure :: error where
  \<open>invalidAnalysisStructure = Error ''The AI returned an invalid analysis structure.''\<close>

definition analyzeAndSuggestCorrections_response :: "response \<Rightarrow> error + json" where
  "analyzeAndSuggestCorrections_response response =
     (case JSON_parse (jsonTextOf response) of
        None \<Rightarrow> Inl invalidAnalysisStructure
      | Some result \<Rightarrow> Inr result)"

section \<open>The declared shapes\<close>

text \<open>
  The declared shape of a payload is the schema the request declares. A value
  matches an object schema when it is an object that has the required properties
  and whose declared properties, where present, match their schemas.
\<close>

fun conforms :: "schema \<Rightarrow> json \<Rightarrow> bool" where
  "conforms STRING v = (case v of JString us \<Rightarrow> True | _ \<Rightarrow> False)"
| "conforms INTEGER v = (case v of JNumber q \<Rightarrow> of_int \<lfloor>q\<rfloor> = q | _ \<Rightarrow> False)"
| "conforms BOOLEAN v = (case v of JBool b \<Rightarrow> True | _ \<Rightarrow> False)"
| "conforms (ARRAY s) v = (case v of JArray vs \<Rightarrow> list_all (conforms s) vs | _ \<Rightarrow> False)"
| "conforms (OBJECT props required) v =
     (case v of
        JObject kvs \<Rightarrow>
          list_all (\<lambda>k. map_of kvs (units k) \<noteq> None) required
          \<and> list_all (\<lambda>(k, s). case map_of kvs (units k) of
                                   None \<Rightarrow> True
                                 | Some x \<Rightarrow> conforms s x) props
      | _ \<Rightarrow> False)"

text \<open>
  The invariant the spec states of an analysis result, in its words:
  \<open>has_discrepancies == false\<close> implies \<open>correction_prompt == ""\<close>, and
  \<open>has_discrepancies == true\<close> implies \<open>correction_prompt != ""\<close>.
\<close>

definition spec_AnalysisResult_invariant :: "json \<Rightarrow> bool" where
  "spec_AnalysisResult_invariant result =
     ((ownProperty result ''has_discrepancies'' = Some (JBool False)
         \<longrightarrow> ownProperty result ''correction_prompt'' = Some (JString []))
      \<and> (ownProperty result ''has_discrepancies'' = Some (JBool True)
         \<longrightarrow> ownProperty result ''correction_prompt'' \<noteq> Some (JString [])))"

section \<open>The operations\<close>

text \<open>
  An operation builds its request, awaits the backend once and reads the response.
  A failure of the call itself is not caught.
\<close>

definition await :: "backend \<Rightarrow> request \<Rightarrow> (response \<Rightarrow> error + 'a) \<Rightarrow> error + 'a" where
  "await ai req k = (case ai req of Inl e \<Rightarrow> Inl e | Inr response \<Rightarrow> k response)"

definition generateDetailedStorySuggestion ::
  "backend \<Rightarrow> string \<Rightarrow> string \<Rightarrow> character list \<Rightarrow> page list \<Rightarrow> error + json" where
  "generateDetailedStorySuggestion ai premise worldview characters previousPages =
     await ai (generateDetailedStorySuggestion_request premise worldview characters previousPages)
       generateDetailedStorySuggestion_response"

definition generateLayoutProposal ::
  "backend \<Rightarrow> string \<Rightarrow> character list \<Rightarrow> string \<Rightarrow> layoutPage option \<Rightarrow> string option
   \<Rightarrow> error + string" where
  "generateLayoutProposal ai story characters aspectRatioKey previousPage currentCanvasImage =
     await ai
       (generateLayoutProposal_request story characters aspectRatioKey previousPage
          currentCanvasImage)
       generateLayoutProposal_response"

definition generateCharacterSheet ::
  "backend \<Rightarrow> string list \<Rightarrow> string \<Rightarrow> colorMode \<Rightarrow> error + string" where
  "generateCharacterSheet ai referenceImagesBase64 characterName colorMode =
     await ai (generateCharacterSheet_request referenceImagesBase64 characterName colorMode)
       generateCharacterSheet_response"

definition generateCharacterFromReference ::
  "backend \<Rightarrow> string list \<Rightarrow> string \<Rightarrow> string \<Rightarrow> colorMode \<Rightarrow> error + string" where
  "generateCharacterFromReference ai referenceSheetImagesBase64 characterName characterConcept
       colorMode =
     await ai
       (generateCharacterFromReference_request referenceSheetImagesBase64 characterName
          characterConcept colorMode)
       generateCharacterFromReference_response"

definition editCharacterSheet :: "backend \<Rightarrow> string \<Rightarrow> string \<Rightarrow> string \<Rightarrow> error + string" where
  "editCharacterSheet ai sheetImageBase64 characterName editPrompt =
     await ai (editCharacterSheet_request sheetImageBase64 characterName editPrompt)
       editCharacterSheet_response"

definition generateMangaPage ::
  "backend \<Rightarrow> character list \<Rightarrow> string \<Rightarrow> string \<Rightarrow> colorMode \<Rightarrow> page option \<Rightarrow> bool
   \<Rightarrow> error + generatedContent" where
  "generateMangaPage ai characters panelLayoutImageBase64 sceneDescription' colorMode
       previousPage generateEmptyBubbles =
     await ai
       (generateMangaPage_request characters panelLayoutImageBase64 sceneDescription' colorMode
          previousPage generateEmptyBubbles)
       generateMangaPage_response"

definition colorizeMangaPage :: "backend \<Rightarrow> string \<Rightarrow> character list \<Rightarrow> error + string" where
  "colorizeMangaPage ai monochromePageBase64 characters =
     await ai (colorizeMangaPage_request monochromePageBase64 characters)
       colorizeMangaPage_response"

definition editMangaPage ::
  "backend \<Rightarrow> string \<Rightarrow> string \<Rightarrow> string option \<Rightarrow> string list \<Rightarrow> error + string" where
  "editMangaPage ai originalImageBase64 prompt maskImageBase64 referenceImagesBase64 =
     await ai
       (editMangaPage_request originalImageBase64 prompt maskImageBase64 referenceImagesBase64)
       editMangaPage_response"

definition analyzeAndSuggestCorrections ::
  "backend \<Rightarrow> string \<Rightarrow> string \<Rightarrow> string \<Rightarrow> character list \<Rightarrow> error + json" where
  "analyzeAndSuggestCorrections ai panelLayoutImage generatedImage' sceneDescription' characters =
     await ai
       (analyzeAndSuggestCorrections_request panelLayoutImage generatedImage' sceneDescription'
          characters)
       analyzeAndSuggestCorrections_response"

section \<open>Properties of the image codec\<close>

lemma stripPrefix_append: "stripPrefix p (p @ s) = Some s"
  by (induction p) simp_all

lemma lazyDotsSemicolon_hit:
  "CHR '';'' \<notin> set t \<Longrightarrow> \<forall>c \<in> set t. \<not> lineTerminator c \<Longrightarrow>
   lazyDotsSemicolon (t @ CHR '';'' # rest) = Some t"
  by (induction t) auto

lemma matchHere_hit:
  assumes "CHR '';'' \<notin> set t" and "\<forall>c \<in> set t. \<not> lineTerminator c"
  shows "matchHere (''data:image/'' @ t @ CHR '';'' # rest) = Some (''image/'' @ t)"
  unfolding matchHere_def stripPrefix_append
  using lazyDotsSemicolon_hit [OF assms] by simp

lemma matchGroup1_hit:
  assumes "CHR '';'' \<notin> set t" and "\<forall>c \<in> set t. \<not> lineTerminator c"
  shows "matchGroup1 (''data:image/'' @ t @ CHR '';'' # rest) = Some (''image/'' @ t)"
proof -
  have "matchGroup1 (CHR ''d'' # (''ata:image/'' @ t @ CHR '';'' # rest))
        = Some (''image/'' @ t)"
    using matchHere_hit [OF assms, of rest] by (simp only: matchGroup1.simps) simp
  then show ?thesis by simp
qed

lemma sniffMimeType_hit:
  assumes "CHR '';'' \<notin> set t" and "\<forall>c \<in> set t. \<not> lineTerminator c"
  shows "sniffMimeType (''data:image/'' @ t @ CHR '';'' # rest) = ''image/'' @ t"
  unfolding sniffMimeType_def matchGroup1_hit [OF assms] by simp

lemma lazyDotsSemicolon_Some:
  "lazyDotsSemicolon r = Some t \<Longrightarrow>
   \<exists>rest. r = t @ CHR '';'' # rest \<and> CHR '';'' \<notin> set t \<and> (\<forall>c \<in> set t. \<not> lineTerminator c)"
proof (induction r arbitrary: t)
  case Nil
  then show ?case by simp
next
  case (Cons c cs)
  show ?case
  proof (cases "c = CHR '';''")
    case True
    with Cons.prems show ?thesis by simp
  next
    case False
    with Cons.prems obtain t' where t': "lazyDotsSemicolon cs = Some t'" "t = c # t'"
      and c: "\<not> lineTerminator c"
      by (auto split: if_splits)
    from Cons.IH [OF t'(1)] obtain rest where
      "cs = t' @ CHR '';'' # rest" "CHR '';'' \<notin> set t'" "\<forall>c \<in> set t'. \<not> lineTerminator c"
      by blast
    with False c t'(2) show ?thesis by simp
  qed
qed

lemma matchHere_Some:
  assumes "matchHere s = Some g"
  shows "\<exists>t rest. s = ''data:image/'' @ t @ CHR '';'' # rest \<and> g = ''image/'' @ t
           \<and> CHR '';'' \<notin> set t \<and> (\<forall>c \<in> set t. \<not> lineTerminator c)"
proof -
  from assms obtain r t where r: "stripPrefix ''data:image/'' s = Some r"
    and t: "lazyDotsSemicolon r = Some t" and g: "g = ''image/'' @ t"
    unfolding matchHere_def by (auto split: option.splits)
  from lazyDotsSemicolon_Some [OF t] obtain rest where
    "r = t @ CHR '';'' # rest" "CHR '';'' \<notin> set t" "\<forall>c \<in> set t. \<not> lineTerminator c"
    by blast
  with stripPrefix_Some [OF r] g show ?thesis by blast
qed

lemma matchGroup1_Some:
  "matchGroup1 s = Some g \<Longrightarrow>
   \<exists>pre t rest. s = pre @ ''data:image/'' @ t @ CHR '';'' # rest \<and> g = ''image/'' @ t
     \<and> CHR '';'' \<notin> set t \<and> (\<forall>c \<in> set t. \<not> lineTerminator c)"
proof (induction s)
  case Nil
  then show ?case by (simp add: matchHere_def)
next
  case (Cons c cs)
  show ?case
  proof (cases "matchHere (c # cs)")
    case (Some g')
    with Cons.prems have "g' = g" by simp
    with matchHere_Some [OF Some] obtain t rest where
      "c # cs = [] @ ''data:image/'' @ t @ CHR '';'' # rest" "g = ''image/'' @ t"
      "CHR '';'' \<notin> set t" "\<forall>c \<in> set t. \<not> lineTerminator c"
      by auto
    then show ?thesis by blast
  next
    case None
    with Cons.prems have "matchGroup1 cs = Some g" by simp
    from Cons.IH [OF this] obtain pre t rest where
      "cs = pre @ ''data:image/'' @ t @ CHR '';'' # rest" "g = ''image/'' @ t"
      "CHR '';'' \<notin> set t" "\<forall>c \<in> set t. \<not> lineTerminator c"
      by blast
    then have "c # cs = (c # pre) @ ''data:image/'' @ t @ CHR '';'' # rest \<and> g = ''image/'' @ t
        \<and> CHR '';'' \<notin> set t \<and> (\<forall>c \<in> set t. \<not> lineTerminator c)"
      by simp
    then show ?thesis by blast
  qed
qed

lemma sniffMimeType_default:
  assumes "\<nexists>pre t rest. s = pre @ ''data:image/'' @ t @ '';'' @ rest
             \<and> (\<forall>c \<in> set t. \<not> lineTerminator c)"
  shows "sniffMimeType s = ''image/png''"
proof (cases "matchGroup1 s")
  case None
  then show ?thesis by (simp add: sniffMimeType_def)
next
  case (Some g)
  from matchGroup1_Some [OF this] obtain pre t rest where
    "s = pre @ ''data:image/'' @ t @ '';'' @ rest" "\<forall>c \<in> set t. \<not> lineTerminator c"
    by auto
  with assms show ?thesis by blast
qed

lemma sniffMimeType_nonempty: "sniffMimeType s \<noteq> []"
  unfolding sniffMimeType_def by (simp split: option.splits)

lemma js_split_no_sep: "sep \<notin> set s \<Longrightarrow> js_split sep s = [s]"
  by (induction s) auto

lemma js_split_first_sep:
  "sep \<notin> set a \<Longrightarrow> js_split sep (a @ sep # b) = a # js_split sep b"
  by (induction a) auto

lemma payload_after_comma:
  assumes "CHR '','' \<notin> set a" and "CHR '','' \<notin> set p"
  shows "elemAt (js_split (CHR '','') (a @ CHR '','' # p)) 1 = Some p"
  using assms by (simp add: js_split_first_sep js_split_no_sep)

text \<open>
  C7, as amended: for a media type \<open>image/t\<close>, where \<open>t\<close> has no semicolon, comma or
  line terminator, and a payload without a comma (as every base64 payload is),
  decoding the encoded image gives the media type and the payload back.
\<close>

theorem codec_round_trip:
  assumes "CHR '';'' \<notin> set t" and "\<forall>c \<in> set t. \<not> lineTerminator c"
    and "CHR '','' \<notin> set t" and "CHR '','' \<notin> set p"
  shows "imagePart (dataUri (''image/'' @ t) p) = InlineDataPart (Some p) (''image/'' @ t)"
proof -
  have m: "sniffMimeType (dataUri (''image/'' @ t) p) = ''image/'' @ t"
    using sniffMimeType_hit [OF assms(1,2), of "''base64,'' @ p"] by (simp add: dataUri_def)
  have "CHR '','' \<notin> set (''data:image/'' @ t @ '';base64'')"
    using assms(3) by simp
  from payload_after_comma [OF this assms(4)]
  have d: "elemAt (js_split (CHR '','') (dataUri (''image/'' @ t) p)) 1 = Some p"
    by (simp add: dataUri_def)
  show ?thesis
    unfolding imagePart_def base64ToGeminiPart_def m d ..
qed

theorem codec_round_trip_witness:
  "imagePart (dataUri ''image/png'' ''iVBORw0KGgo='') = InlineDataPart (Some ''iVBORw0KGgo='') ''image/png''"
  using codec_round_trip [of "''png''" "''iVBORw0KGgo=''"]
  by (simp add: lineTerminator_def)

text \<open>
  C7, as stated, fails for a media type that is not an image type: the pattern
  reads \<open>image/\<close> only, so the decoder answers \<open>image/png\<close>.
\<close>

theorem codec_round_trip_counterexample:
  "imagePart (dataUri ''text/plain'' ''AAAA'') = InlineDataPart (Some ''AAAA'') ''image/png''
   \<and> imagePart (dataUri ''text/plain'' ''AAAA'') \<noteq> InlineDataPart (Some ''AAAA'') ''text/plain''"
  by (simp add: imagePart_def dataUri_def base64ToGeminiPart_def sniffMimeType_def
      matchHere_def lineTerminator_def)

text \<open>
  C8, as amended: decoding is total and its media type is never empty; for a
  string that begins with \<open>data:image/t;\<close>, where \<open>t\<close> has no semicolon or line
  terminator, the media type is \<open>image/t\<close>, whatever follows; for a string in which
  no \<open>data:image/\<close> is followed by a semicolon before the next line terminator, so
  for every string in which \<open>data:image/\<close> does not occur, it is \<open>image/png\<close>.
\<close>

theorem decode_media_type:
  "(\<exists>d m. imagePart s = InlineDataPart d m \<and> m = sniffMimeType s \<and> m \<noteq> [])
   \<and> (CHR '';'' \<notin> set t \<and> (\<forall>c \<in> set t. \<not> lineTerminator c)
        \<longrightarrow> sniffMimeType (''data:image/'' @ t @ '';'' @ rest) = ''image/'' @ t)
   \<and> ((\<nexists>pre u post. s = pre @ ''data:image/'' @ u @ '';'' @ post
                       \<and> (\<forall>c \<in> set u. \<not> lineTerminator c))
        \<longrightarrow> sniffMimeType s = ''image/png'')"
  using sniffMimeType_hit [of t rest] sniffMimeType_default [of s] sniffMimeType_nonempty [of s]
  by (simp add: imagePart_def base64ToGeminiPart_def)

theorem decode_media_type_witness:
  "sniffMimeType ''data:image/webp;base64,UklGRg=='' = ''image/webp''
   \<and> sniffMimeType ''UklGRg=='' = ''image/png''
   \<and> imagePart ''UklGRg=='' = InlineDataPart None ''image/png''"
proof -
  have no: "\<nexists>pre u post. ''UklGRg=='' = pre @ ''data:image/'' @ u @ '';'' @ post
               \<and> (\<forall>c \<in> set u. \<not> lineTerminator c)"
  proof
    assume "\<exists>pre u post. ''UklGRg=='' = pre @ ''data:image/'' @ u @ '';'' @ post
               \<and> (\<forall>c \<in> set u. \<not> lineTerminator c)"
    then obtain pre u post where "''UklGRg=='' = pre @ ''data:image/'' @ u @ '';'' @ post"
      by blast
    then have "length ''UklGRg=='' = length (pre @ ''data:image/'' @ u @ '';'' @ post)"
      by (rule arg_cong)
    then show False by simp
  qed
  have t: "CHR '';'' \<notin> set ''webp'' \<and> (\<forall>c \<in> set ''webp''. \<not> lineTerminator c)"
    by (simp add: lineTerminator_def)
  from decode_media_type [of "''UklGRg==''" "''webp''" "''base64,UklGRg==''"] no t
  show ?thesis
    by (simp add: imagePart_def base64ToGeminiPart_def)
qed

text \<open>
  C8, as stated, fails both ways: a string with the prefix \<open>data:text/plain;base64,\<close>
  gets \<open>image/png\<close>, not the token of the prefix, and a string without
  \<open>;base64,\<close> gets the media type it names, not the default.
\<close>

theorem decode_media_type_counterexample:
  "sniffMimeType ''data:text/plain;base64,AAAA'' = ''image/png''
   \<and> sniffMimeType ''data:image/jpeg;AAAA'' = ''image/jpeg''"
  by (simp add: sniffMimeType_def matchHere_def lineTerminator_def)

section \<open>Order of the attachments\<close>

text \<open>
  C2, as amended: when a previous page with a proposal image, characters and a
  canvas image are all supplied to \<open>generateLayoutProposal\<close>, the request the
  operation hands to the backend carries, after the instruction, the canvas image
  first, then the image of the previous page, then the sheet images of the
  characters in roster order; the operation's result is read from the backend's
  answer to that request.
\<close>

theorem layout_attachment_order:
  assumes "canvas \<noteq> []" and "proposalImage prev \<noteq> []"
  shows "generateLayoutProposal ai story characters aspectRatioKey (Some prev) (Some canvas)
         = (case ai \<lparr>model = ''gemini-2.5-flash-image-preview'',
                       contents =
                         TextPart (layoutPrompt story (characters \<noteq> [])
                                     (selectConfig aspectRatioKey) (Some prev))
                         # imagePart canvas
                         # imagePart (proposalImage prev)
                         # map (\<lambda>char. imagePart (sheetImage char)) characters,
                       requestConfig = ResponseModalities [IMAGE, TEXT]\<rparr> of
              Inl e \<Rightarrow> Inl e
            | Inr response \<Rightarrow> generateLayoutProposal_response response)"
  using assms
  by (simp add: generateLayoutProposal_def await_def generateLayoutProposal_request_def
      generateLayoutProposal_parts_def Let_def)

text \<open>
  A backend that answers with an image only when the attachments of the request
  it receives are the canvas image, the image of the previous page and the sheet
  image, in this order.
\<close>

theorem layout_attachment_order_witness:
  "generateLayoutProposal
       (\<lambda>req. if tl (contents req)
                    = [InlineDataPart (Some ''CANVAS'') ''image/webp'',
                       InlineDataPart (Some ''PREV'') ''image/jpeg'',
                       InlineDataPart (Some ''SHEET'') ''image/png'']
                 then Inr \<lparr>candidates =
                             [[\<lparr>inlineData = Some \<lparr>mimeType = ''image/png'', data = ''SKETCH''\<rparr>,
                                partText = None\<rparr>]],
                           responseText = None\<rparr>
                 else Inl (Error ''other attachments''))
       ''A duel at dawn.''
       [\<lparr>name = ''Kaito'', description = None,
          sheetImage = ''data:image/png;base64,SHEET'', referenceImages = []\<rparr>]
       ''A4''
       (Some \<lparr>proposalImage = ''data:image/jpeg;base64,PREV'', layoutSceneDescription = ''''\<rparr>)
       (Some ''data:image/webp;base64,CANVAS'')
   = Inr ''data:image/png;base64,SKETCH''"
proof -
  let ?answer =
    "\<lparr>candidates =
        [[\<lparr>inlineData = Some \<lparr>mimeType = ''image/png'', data = ''SKETCH''\<rparr>, partText = None\<rparr>]],
      responseText = None\<rparr>"
  let ?ai =
    "\<lambda>req. if tl (contents req)
                 = [InlineDataPart (Some ''CANVAS'') ''image/webp'',
                    InlineDataPart (Some ''PREV'') ''image/jpeg'',
                    InlineDataPart (Some ''SHEET'') ''image/png'']
              then Inr ?answer else Inl (Error ''other attachments'')"
  have answer: "generateLayoutProposal_response ?answer = Inr ''data:image/png;base64,SKETCH''"
    by (simp add: generateLayoutProposal_response_def findInlineData_def findText_def
        dataUri_def)
  have canvas: "''data:image/webp;base64,CANVAS'' \<noteq> []" by simp
  have prev: "proposalImage \<lparr>proposalImage = ''data:image/jpeg;base64,PREV'',
                             layoutSceneDescription = ''''\<rparr> \<noteq> []"
    by simp
  show ?thesis
    using layout_attachment_order
      [OF canvas prev, of ?ai "''A duel at dawn.''"
         "[\<lparr>name = ''Kaito'', description = None,
            sheetImage = ''data:image/png;base64,SHEET'', referenceImages = []\<rparr>]"
         "''A4''"]
      answer
    by (simp add: imagePart_def base64ToGeminiPart_def sniffMimeType_def matchHere_def
        lineTerminator_def)
qed

text \<open>
  C2, as stated, fails: a backend that answers only a request whose attachments
  are the image of the previous page, the sheet image and the canvas image, in
  the order of the claim, does not answer the request of the operation; the
  attachments the operation sends are in another order.
\<close>

theorem layout_attachment_order_counterexample:
  "generateLayoutProposal
       (\<lambda>req. if tl (contents req)
                    = [InlineDataPart (Some ''PREV'') ''image/jpeg'',
                       InlineDataPart (Some ''SHEET'') ''image/png'',
                       InlineDataPart (Some ''CANVAS'') ''image/webp'']
                 then Inr \<lparr>candidates =
                             [[\<lparr>inlineData = Some \<lparr>mimeType = ''image/png'', data = ''SKETCH''\<rparr>,
                                partText = None\<rparr>]],
                           responseText = None\<rparr>
                 else Inl (Error ''other attachments''))
       ''A duel at dawn.''
       [\<lparr>name = ''Kaito'', description = None,
          sheetImage = ''data:image/png;base64,SHEET'', referenceImages = []\<rparr>]
       ''A4''
       (Some \<lparr>proposalImage = ''data:image/jpeg;base64,PREV'', layoutSceneDescription = ''''\<rparr>)
       (Some ''data:image/webp;base64,CANVAS'')
   = Inl (Error ''other attachments'')
   \<and> tl (contents (generateLayoutProposal_request ''A duel at dawn.''
       [\<lparr>name = ''Kaito'', description = None,
          sheetImage = ''data:image/png;base64,SHEET'', referenceImages = []\<rparr>]
       ''A4''
       (Some \<lparr>proposalImage = ''data:image/jpeg;base64,PREV'', layoutSceneDescription = ''''\<rparr>)
       (Some ''data:image/webp;base64,CANVAS'')))
   = [InlineDataPart (Some ''CANVAS'') ''image/webp'',
      InlineDataPart (Some ''PREV'') ''image/jpeg'',
      InlineDataPart (Some ''SHEET'') ''image/png'']"
  by (simp add: generateLayoutProposal_def await_def
      generateLayoutProposal_request_def generateLayoutProposal_parts_def Let_def
      imagePart_def base64ToGeminiPart_def sniffMimeType_def matchHere_def lineTerminator_def)

text \<open>
  C9: the request \<open>generateMangaPage\<close> hands to the backend carries, after the
  instruction, with a previous page that has a generated image the image of the
  previous page, the sheet images of the characters in roster order and the panel
  layout image; without a previous page, or with one that has no generated image,
  the same list without its first element. The operation's result is read from
  the backend's answer to that request.
\<close>

theorem manga_page_attachment_order:
  "(generatedImage prev = Some img \<and> img \<noteq> [] \<longrightarrow>
      generateMangaPage ai characters panelLayout script colorMode (Some prev) bubbles
      = (case ai \<lparr>model = ''gemini-2.5-flash-image-preview'',
                    contents =
                      TextPart (mangaPagePrompt characters script colorMode (Some prev) bubbles)
                      # imagePart img
                      # map (\<lambda>char. imagePart (sheetImage char)) characters
                      @ [imagePart panelLayout],
                    requestConfig = ResponseModalities [IMAGE, TEXT]\<rparr> of
           Inl e \<Rightarrow> Inl e
         | Inr response \<Rightarrow> generateMangaPage_response response))
   \<and> (\<not> truthyStr (generatedImage prev) \<longrightarrow>
      generateMangaPage ai characters panelLayout script colorMode (Some prev) bubbles
      = (case ai \<lparr>model = ''gemini-2.5-flash-image-preview'',
                    contents =
                      TextPart (mangaPagePrompt characters script colorMode (Some prev) bubbles)
                      # map (\<lambda>char. imagePart (sheetImage char)) characters
                      @ [imagePart panelLayout],
                    requestConfig = ResponseModalities [IMAGE, TEXT]\<rparr> of
           Inl e \<Rightarrow> Inl e
         | Inr response \<Rightarrow> generateMangaPage_response response))
   \<and> generateMangaPage ai characters panelLayout script colorMode None bubbles
      = (case ai \<lparr>model = ''gemini-2.5-flash-image-preview'',
                    contents =
                      TextPart (mangaPagePrompt characters script colorMode None bubbles)
                      # map (\<lambda>char. imagePart (sheetImage char)) characters
                      @ [imagePart panelLayout],
                    requestConfig = ResponseModalities [IMAGE, TEXT]\<rparr> of
           Inl e \<Rightarrow> Inl e
         | Inr response \<Rightarrow> generateMangaPage_response response)"
  by (cases "generatedImage prev")
     (simp_all add: generateMangaPage_def await_def generateMangaPage_request_def
        generateMangaPage_parts_def Let_def)

text \<open>
  Two backends, each answering with an image only when the attachments of the
  request it receives are the ones listed: with the image of the previous page in
  front, and without it.
\<close>

theorem manga_page_attachment_order_witness:
  "generateMangaPage
       (\<lambda>req. if tl (contents req)
                    = [InlineDataPart (Some ''PREV'') ''image/jpeg'',
                       InlineDataPart (Some ''KAITO'') ''image/png'',
                       InlineDataPart (Some ''ANYA'') ''image/png'',
                       InlineDataPart (Some ''LAYOUT'') ''image/png'']
                 then Inr \<lparr>candidates =
                             [[\<lparr>inlineData = Some \<lparr>mimeType = ''image/png'', data = ''PAGE''\<rparr>,
                                partText = None\<rparr>]],
                           responseText = None\<rparr>
                 else Inl (Error ''other attachments''))
       [\<lparr>name = ''Kaito'', description = None,
          sheetImage = ''data:image/png;base64,KAITO'', referenceImages = []\<rparr>,
        \<lparr>name = ''Anya'', description = None,
          sheetImage = ''data:image/png;base64,ANYA'', referenceImages = []\<rparr>]
       ''data:image/png;base64,LAYOUT'' ''Panel 1: Kaito runs.'' Monochrome
       (Some \<lparr>generatedImage = Some ''data:image/jpeg;base64,PREV'',
              sceneDescription = ''Panel 1: Anya waits.''\<rparr>) False
     = Inr \<lparr>image = Some ''data:image/png;base64,PAGE'', contentText = None\<rparr>
   \<and> generateMangaPage
       (\<lambda>req. if tl (contents req)
                    = [InlineDataPart (Some ''KAITO'') ''image/png'',
                       InlineDataPart (Some ''ANYA'') ''image/png'',
                       InlineDataPart (Some ''LAYOUT'') ''image/png'']
                 then Inr \<lparr>candidates =
                             [[\<lparr>inlineData = Some \<lparr>mimeType = ''image/png'', data = ''PAGE''\<rparr>,
                                partText = None\<rparr>]],
                           responseText = None\<rparr>
                 else Inl (Error ''other attachments''))
       [\<lparr>name = ''Kaito'', description = None,
          sheetImage = ''data:image/png;base64,KAITO'', referenceImages = []\<rparr>,
        \<lparr>name = ''Anya'', description = None,
          sheetImage = ''data:image/png;base64,ANYA'', referenceImages = []\<rparr>]
       ''data:image/png;base64,LAYOUT'' ''Panel 1: Kaito runs.'' Monochrome
       (Some \<lparr>generatedImage = None, sceneDescription = ''Panel 1: Anya waits.''\<rparr>) False
     = Inr \<lparr>image = Some ''data:image/png;base64,PAGE'', contentText = None\<rparr>"
proof -
  let ?characters =
    "[\<lparr>name = ''Kaito'', description = None,
       sheetImage = ''data:image/png;base64,KAITO'', referenceImages = []\<rparr>,
      \<lparr>name = ''Anya'', description = None,
       sheetImage = ''data:image/png;base64,ANYA'', referenceImages = []\<rparr>]"
  let ?answer =
    "\<lparr>candidates =
        [[\<lparr>inlineData = Some \<lparr>mimeType = ''image/png'', data = ''PAGE''\<rparr>, partText = None\<rparr>]],
      responseText = None\<rparr>"
  let ?with =
    "\<lambda>req. if tl (contents req)
                 = [InlineDataPart (Some ''PREV'') ''image/jpeg'',
                    InlineDataPart (Some ''KAITO'') ''image/png'',
                    InlineDataPart (Some ''ANYA'') ''image/png'',
                    InlineDataPart (Some ''LAYOUT'') ''image/png'']
              then Inr ?answer else Inl (Error ''other attachments'')"
  let ?without =
    "\<lambda>req. if tl (contents req)
                 = [InlineDataPart (Some ''KAITO'') ''image/png'',
                    InlineDataPart (Some ''ANYA'') ''image/png'',
                    InlineDataPart (Some ''LAYOUT'') ''image/png'']
              then Inr ?answer else Inl (Error ''other attachments'')"
  have answer: "generateMangaPage_response ?answer
      = Inr \<lparr>image = Some ''data:image/png;base64,PAGE'', contentText = None\<rparr>"
    by (simp add: generateMangaPage_response_def scanPart_def dataUri_def)
  have a: "generateMangaPage ?with ?characters ''data:image/png;base64,LAYOUT''
       ''Panel 1: Kaito runs.'' Monochrome
       (Some \<lparr>generatedImage = Some ''data:image/jpeg;base64,PREV'',
              sceneDescription = ''Panel 1: Anya waits.''\<rparr>) False
     = Inr \<lparr>image = Some ''data:image/png;base64,PAGE'', contentText = None\<rparr>"
    using manga_page_attachment_order
      [of "\<lparr>generatedImage = Some ''data:image/jpeg;base64,PREV'',
             sceneDescription = ''Panel 1: Anya waits.''\<rparr>"
          "''data:image/jpeg;base64,PREV''" ?with ?characters
          "''data:image/png;base64,LAYOUT''" "''Panel 1: Kaito runs.''" Monochrome False]
      answer
    by (simp add: imagePart_def base64ToGeminiPart_def sniffMimeType_def matchHere_def
        lineTerminator_def)
  have b: "generateMangaPage ?without ?characters ''data:image/png;base64,LAYOUT''
       ''Panel 1: Kaito runs.'' Monochrome
       (Some \<lparr>generatedImage = None, sceneDescription = ''Panel 1: Anya waits.''\<rparr>) False
     = Inr \<lparr>image = Some ''data:image/png;base64,PAGE'', contentText = None\<rparr>"
    using manga_page_attachment_order
      [of "\<lparr>generatedImage = None, sceneDescription = ''Panel 1: Anya waits.''\<rparr>"
          "[]" ?without ?characters
          "''data:image/png;base64,LAYOUT''" "''Panel 1: Kaito runs.''" Monochrome False]
      answer
    by (simp add: imagePart_def base64ToGeminiPart_def sniffMimeType_def matchHere_def
        lineTerminator_def)
  from a b show ?thesis by (intro conjI)
qed

section \<open>The aspect ratio profile\<close>

lemma lookupConfig_A4: "lookupConfig ''A4'' = Some (Entry A4)"
  by (simp add: lookupConfig_def ASPECT_RATIO_CONFIG_def)

lemma selectConfig_recognized:
  "selectConfig ''A4'' = Entry \<lparr>profile_w = 595, profile_h = 842, profile_value = ''210:297''\<rparr>"
  "selectConfig ''Portrait (3:4)'' = Entry \<lparr>profile_w = 600, profile_h = 800, profile_value = ''3:4''\<rparr>"
  "selectConfig ''Square (1:1)'' = Entry \<lparr>profile_w = 800, profile_h = 800, profile_value = ''1:1''\<rparr>"
  "selectConfig ''Widescreen (16:9)'' = Entry \<lparr>profile_w = 1280, profile_h = 720, profile_value = ''16:9''\<rparr>"
  by (simp_all add: selectConfig_def lookupConfig_def ASPECT_RATIO_CONFIG_def A4_def)

lemma selectConfig_fallback:
  assumes "key \<notin> {''A4'', ''Portrait (3:4)'', ''Square (1:1)'', ''Widescreen (16:9)''}"
    and "key \<notin> set Object_prototype"
  shows "selectConfig key = Entry \<lparr>profile_w = 595, profile_h = 842, profile_value = ''210:297''\<rparr>"
  using assms
  by (simp add: selectConfig_def lookupConfig_def ASPECT_RATIO_CONFIG_def A4_def)

text \<open>
  C10 fails in the code for a key that names a property every object inherits:
  for \<open>constructor\<close> the lookup finds the inherited function, which is truthy, so
  the A4 profile is not used and the instruction names an aspect ratio
  \<open>undefined\<close> and a canvas of \<open>undefined\<close> pixels.
\<close>

theorem aspect_ratio_inherited_key:
  "selectConfig ''constructor'' = Inherited ''constructor''
   \<and> selectConfig ''constructor'' \<noteq> Entry A4
   \<and> templateStr (config_value (selectConfig ''constructor'')) = ''undefined''
   \<and> templateNum (config_w (selectConfig ''constructor'')) = ''undefined''
   \<and> templateNum (config_h (selectConfig ''constructor'')) = ''undefined''"
  by (simp add: selectConfig_def lookupConfig_def ASPECT_RATIO_CONFIG_def Object_prototype_def)

section \<open>The image and the text of a response\<close>

lemma find_first:
  assumes "\<forall>q \<in> set pre. \<not> P q" and "P p"
  shows "find P (pre @ p # post) = Some p"
  using assms by (induction pre) simp_all

lemma findInlineData_first:
  assumes "\<forall>q \<in> set pre. inlineData q = None" and "inlineData p = Some b"
  shows "Option.bind (findInlineData (pre @ p # post)) inlineData = Some b"
proof -
  have "find (\<lambda>part. inlineData part \<noteq> None) (pre @ p # post) = Some p"
    using assms by (intro find_first) simp_all
  then show ?thesis using assms(2) by (simp add: findInlineData_def)
qed

lemma findInlineData_none:
  assumes "\<forall>q \<in> set ps. inlineData q = None"
  shows "Option.bind (findInlineData ps) inlineData = None"
proof -
  have "find (\<lambda>part. inlineData part \<noteq> None) ps = None"
    using assms by (simp add: find_None_iff)
  then show ?thesis by (simp add: findInlineData_def)
qed

lemma findText_first:
  assumes "\<forall>q \<in> set pre. \<not> truthyStr (partText q)" and "partText p = Some t" and "t \<noteq> []"
  shows "Option.bind (findText (pre @ p # post)) partText = Some t"
proof -
  have "find (\<lambda>part. truthyStr (partText part)) (pre @ p # post) = Some p"
    using assms by (intro find_first) simp_all
  then show ?thesis using assms(2) by (simp add: findText_def)
qed

lemma scan_keeps_image:
  "\<forall>q \<in> set ps. inlineData q = None \<Longrightarrow> image (foldl scanPart r ps) = image r"
  by (induction ps arbitrary: r) (simp_all add: scanPart_def)

lemma scan_keeps_text:
  "\<forall>q \<in> set ps. inlineData q = None \<longrightarrow> \<not> truthyStr (partText q) \<Longrightarrow>
   contentText (foldl scanPart r ps) = contentText r"
  by (induction ps arbitrary: r) (auto simp add: scanPart_def split: option.splits)

lemma scan_last_image:
  assumes "\<forall>q \<in> set post. inlineData q = None" and "inlineData p = Some b"
  shows "image (foldl scanPart r (pre @ p # post)) = Some (dataUri (mimeType b) (data b))"
  using assms by (simp add: scan_keeps_image scanPart_def)

lemma scan_last_text:
  assumes "\<forall>q \<in> set post. inlineData q = None \<longrightarrow> \<not> truthyStr (partText q)"
    and "inlineData p = None" and "partText p = Some t" and "t \<noteq> []"
  shows "contentText (foldl scanPart r (pre @ p # post)) = Some t"
  using assms by (simp add: scan_keeps_text scanPart_def)

lemma dataUri_nonempty: "dataUri m d \<noteq> []"
  by (simp add: dataUri_def)

text \<open>
  The two ways a response is read. When the first candidate has an
  inline-binary part, the six operations that look their image up with \<open>find\<close>
  return the image of the first inline-binary part; \<open>generateMangaPage\<close>, whose
  loop overwrites its result, returns the image of the last inline-binary part,
  and with it the last non-empty text among the parts that carry no inline data.
\<close>

lemma inline_part_read:
  assumes "ps = pre @ p # post" and "\<forall>q \<in> set pre. inlineData q = None"
    and "inlineData p = Some b"
    and "ps = pre' @ p' # post'" and "\<forall>q \<in> set post'. inlineData q = None"
    and "inlineData p' = Some b'"
  shows
    "generateLayoutProposal (\<lambda>_. Inr \<lparr>candidates = ps # cs, responseText = rt\<rparr>)
         story characters aspectRatioKey previousLayout canvas
       = Inr (dataUri (mimeType b) (data b))
     \<and> generateCharacterSheet (\<lambda>_. Inr \<lparr>candidates = ps # cs, responseText = rt\<rparr>)
         images characterName colorMode
       = Inr (dataUri (mimeType b) (data b))
     \<and> generateCharacterFromReference (\<lambda>_. Inr \<lparr>candidates = ps # cs, responseText = rt\<rparr>)
         images characterName concept colorMode
       = Inr (dataUri (mimeType b) (data b))
     \<and> editCharacterSheet (\<lambda>_. Inr \<lparr>candidates = ps # cs, responseText = rt\<rparr>)
         sheet characterName editPrompt
       = Inr (dataUri (mimeType b) (data b))
     \<and> colorizeMangaPage (\<lambda>_. Inr \<lparr>candidates = ps # cs, responseText = rt\<rparr>)
         monochromePage characters
       = Inr (dataUri (mimeType b) (data b))
     \<and> editMangaPage (\<lambda>_. Inr \<lparr>candidates = ps # cs, responseText = rt\<rparr>)
         original prompt maskImage images
       = Inr (dataUri (mimeType b) (data b))
     \<and> (case generateMangaPage (\<lambda>_. Inr \<lparr>candidates = ps # cs, responseText = rt\<rparr>)
                characters panelLayout script colorMode previousPage bubbles of
          Inl e \<Rightarrow> False
        | Inr result \<Rightarrow>
            image result = Some (dataUri (mimeType b') (data b'))
            \<and> (ps = tpre @ tp # tpost \<and> inlineData tp = None \<and> partText tp = Some t \<and> t \<noteq> []
                 \<and> (\<forall>q \<in> set tpost. inlineData q = None \<longrightarrow> \<not> truthyStr (partText q))
                \<longrightarrow> contentText result = Some t))"
proof -
  have first: "Option.bind (findInlineData ps) inlineData = Some b"
    unfolding assms(1) using assms(2,3) by (rule findInlineData_first)
  have img: "image (foldl scanPart r ps) = Some (dataUri (mimeType b') (data b'))" for r
    unfolding assms(4) using assms(5,6) by (rule scan_last_image)
  have lasttext: "contentText (foldl scanPart r ps) = Some t"
    if "ps = tpre @ tp # tpost" and "inlineData tp = None" and "partText tp = Some t"
      and "t \<noteq> []" and "\<forall>q \<in> set tpost. inlineData q = None \<longrightarrow> \<not> truthyStr (partText q)"
    for r
    unfolding that(1) using that(5,2,3,4) by (rule scan_last_text)
  have layout: "generateLayoutProposal_response \<lparr>candidates = ps # cs, responseText = rt\<rparr>
      = Inr (dataUri (mimeType b) (data b))"
    by (simp add: generateLayoutProposal_response_def first)
  have sheet: "generateCharacterSheet_response \<lparr>candidates = ps # cs, responseText = rt\<rparr>
      = Inr (dataUri (mimeType b) (data b))"
    by (simp add: generateCharacterSheet_response_def first)
  have fromref: "generateCharacterFromReference_response \<lparr>candidates = ps # cs, responseText = rt\<rparr>
      = Inr (dataUri (mimeType b) (data b))"
    by (simp add: generateCharacterFromReference_response_def first)
  have editsheet: "editCharacterSheet_response \<lparr>candidates = ps # cs, responseText = rt\<rparr>
      = Inr (dataUri (mimeType b) (data b))"
    by (simp add: editCharacterSheet_response_def first)
  have colorize: "colorizeMangaPage_response \<lparr>candidates = ps # cs, responseText = rt\<rparr>
      = Inr (dataUri (mimeType b) (data b))"
    by (simp add: colorizeMangaPage_response_def first)
  have edit: "editMangaPage_response \<lparr>candidates = ps # cs, responseText = rt\<rparr>
      = Inr (dataUri (mimeType b) (data b))"
    by (simp add: editMangaPage_response_def first)
  have manga: "generateMangaPage_response \<lparr>candidates = ps # cs, responseText = rt\<rparr>
      = Inr (foldl scanPart \<lparr>image = None, contentText = None\<rparr> ps)"
    by (simp add: generateMangaPage_response_def Let_def img dataUri_nonempty)
  show ?thesis
    unfolding generateLayoutProposal_def generateCharacterSheet_def
      generateCharacterFromReference_def editCharacterSheet_def colorizeMangaPage_def
      editMangaPage_def generateMangaPage_def await_def
    using layout sheet fromref editsheet colorize edit manga img lasttext
    by simp
qed

text \<open>
  C3 fails in the code for \<open>generateMangaPage\<close>: on a response whose first
  candidate holds two inline-binary parts and two text parts, it forms its image
  from the second inline-binary part and takes the second text, where the claim
  says the first of each; on the same response the six other image-producing
  operations return the image of the first inline-binary part.
\<close>

theorem manga_page_takes_last_part:
  "generateMangaPage
       (\<lambda>_. Inr \<lparr>candidates =
          [[\<lparr>inlineData = Some \<lparr>mimeType = ''image/png'', data = ''AAAA''\<rparr>, partText = None\<rparr>,
            \<lparr>inlineData = None, partText = Some ''first''\<rparr>,
            \<lparr>inlineData = Some \<lparr>mimeType = ''image/jpeg'', data = ''BBBB''\<rparr>, partText = None\<rparr>,
            \<lparr>inlineData = None, partText = Some ''second''\<rparr>]],
          responseText = None\<rparr>)
       [] ''data:image/png;base64,LAYOUT'' ''Panel 1: rain.'' Color None False
     = Inr \<lparr>image = Some ''data:image/jpeg;base64,BBBB'', contentText = Some ''second''\<rparr>
   \<and> generateLayoutProposal
       (\<lambda>_. Inr \<lparr>candidates =
          [[\<lparr>inlineData = Some \<lparr>mimeType = ''image/png'', data = ''AAAA''\<rparr>, partText = None\<rparr>,
            \<lparr>inlineData = None, partText = Some ''first''\<rparr>,
            \<lparr>inlineData = Some \<lparr>mimeType = ''image/jpeg'', data = ''BBBB''\<rparr>, partText = None\<rparr>,
            \<lparr>inlineData = None, partText = Some ''second''\<rparr>]],
          responseText = None\<rparr>)
       ''A duel at dawn.'' [] ''A4'' None None
     = Inr ''data:image/png;base64,AAAA''
   \<and> generateCharacterSheet
       (\<lambda>_. Inr \<lparr>candidates =
          [[\<lparr>inlineData = Some \<lparr>mimeType = ''image/png'', data = ''AAAA''\<rparr>, partText = None\<rparr>,
            \<lparr>inlineData = None, partText = Some ''first''\<rparr>,
            \<lparr>inlineData = Some \<lparr>mimeType = ''image/jpeg'', data = ''BBBB''\<rparr>, partText = None\<rparr>,
            \<lparr>inlineData = None, partText = Some ''second''\<rparr>]],
          responseText = None\<rparr>)
       [''data:image/png;base64,REF''] ''Kaito'' Color
     = Inr ''data:image/png;base64,AAAA''
   \<and> generateCharacterFromReference
       (\<lambda>_. Inr \<lparr>candidates =
          [[\<lparr>inlineData = Some \<lparr>mimeType = ''image/png'', data = ''AAAA''\<rparr>, partText = None\<rparr>,
            \<lparr>inlineData = None, partText = Some ''first''\<rparr>,
            \<lparr>inlineData = Some \<lparr>mimeType = ''image/jpeg'', data = ''BBBB''\<rparr>, partText = None\<rparr>,
            \<lparr>inlineData = None, partText = Some ''second''\<rparr>]],
          responseText = None\<rparr>)
       [''data:image/png;base64,REF''] ''Kaito'' ''A young swordsman.'' Color
     = Inr ''data:image/png;base64,AAAA''
   \<and> editCharacterSheet
       (\<lambda>_. Inr \<lparr>candidates =
          [[\<lparr>inlineData = Some \<lparr>mimeType = ''image/png'', data = ''AAAA''\<rparr>, partText = None\<rparr>,
            \<lparr>inlineData = None, partText = Some ''first''\<rparr>,
            \<lparr>inlineData = Some \<lparr>mimeType = ''image/jpeg'', data = ''BBBB''\<rparr>, partText = None\<rparr>,
            \<lparr>inlineData = None, partText = Some ''second''\<rparr>]],
          responseText = None\<rparr>)
       ''data:image/png;base64,SHEET'' ''Kaito'' ''Add a scar.''
     = Inr ''data:image/png;base64,AAAA''
   \<and> colorizeMangaPage
       (\<lambda>_. Inr \<lparr>candidates =
          [[\<lparr>inlineData = Some \<lparr>mimeType = ''image/png'', data = ''AAAA''\<rparr>, partText = None\<rparr>,
            \<lparr>inlineData = None, partText = Some ''first''\<rparr>,
            \<lparr>inlineData = Some \<lparr>mimeType = ''image/jpeg'', data = ''BBBB''\<rparr>, partText = None\<rparr>,
            \<lparr>inlineData = None, partText = Some ''second''\<rparr>]],
          responseText = None\<rparr>)
       ''data:image/png;base64,PAGE'' []
     = Inr ''data:image/png;base64,AAAA''
   \<and> editMangaPage
       (\<lambda>_. Inr \<lparr>candidates =
          [[\<lparr>inlineData = Some \<lparr>mimeType = ''image/png'', data = ''AAAA''\<rparr>, partText = None\<rparr>,
            \<lparr>inlineData = None, partText = Some ''first''\<rparr>,
            \<lparr>inlineData = Some \<lparr>mimeType = ''image/jpeg'', data = ''BBBB''\<rparr>, partText = None\<rparr>,
            \<lparr>inlineData = None, partText = Some ''second''\<rparr>]],
          responseText = None\<rparr>)
       ''data:image/png;base64,PAGE'' ''Add rain.'' None []
     = Inr ''data:image/png;base64,AAAA''"
  by (simp add: generateMangaPage_def generateLayoutProposal_def generateCharacterSheet_def
      generateCharacterFromReference_def editCharacterSheet_def colorizeMangaPage_def
      editMangaPage_def await_def
      generateMangaPage_response_def generateLayoutProposal_response_def
      generateCharacterSheet_response_def generateCharacterFromReference_response_def
      editCharacterSheet_response_def colorizeMangaPage_response_def
      editMangaPage_response_def findInlineData_def findText_def scanPart_def dataUri_def)

section \<open>A response without an image\<close>

text \<open>
  Where the first candidate has no inline-binary part and a part carries text,
  four operations fail with a message that quotes the first non-empty text.
\<close>

lemma missing_image_quotes_text:
  assumes "\<forall>q \<in> set ps. inlineData q = None"
    and "ps = pre @ p # post" and "\<forall>q \<in> set pre. \<not> truthyStr (partText q)"
    and "partText p = Some t" and "t \<noteq> []"
  shows "generateLayoutProposal_response \<lparr>candidates = ps # cs, responseText = rt\<rparr>
           = Inl (Error (noImageResponse t))"
    and "generateCharacterSheet_response \<lparr>candidates = ps # cs, responseText = rt\<rparr>
           = Inl (Error (noImageResponse t))"
    and "generateCharacterFromReference_response \<lparr>candidates = ps # cs, responseText = rt\<rparr>
           = Inl (Error (noImageResponse t))"
    and "editMangaPage_response \<lparr>candidates = ps # cs, responseText = rt\<rparr>
           = Inl (Error (noImageResponse t))"
proof -
  have none: "Option.bind (findInlineData ps) inlineData = None"
    using assms(1) by (rule findInlineData_none)
  have first: "Option.bind (findText ps) partText = Some t"
    unfolding assms(2) using assms(3,4,5) by (rule findText_first)
  show "generateLayoutProposal_response \<lparr>candidates = ps # cs, responseText = rt\<rparr>
           = Inl (Error (noImageResponse t))"
    by (simp add: generateLayoutProposal_response_def none first assms(5))
  show "generateCharacterSheet_response \<lparr>candidates = ps # cs, responseText = rt\<rparr>
           = Inl (Error (noImageResponse t))"
    by (simp add: generateCharacterSheet_response_def none first assms(5))
  show "generateCharacterFromReference_response \<lparr>candidates = ps # cs, responseText = rt\<rparr>
           = Inl (Error (noImageResponse t))"
    by (simp add: generateCharacterFromReference_response_def none first assms(5))
  show "editMangaPage_response \<lparr>candidates = ps # cs, responseText = rt\<rparr>
           = Inl (Error (noImageResponse t))"
    by (simp add: editMangaPage_response_def none first assms(5))
qed

text \<open>\<open>editCharacterSheet\<close> and \<open>colorizeMangaPage\<close> fail with one fixed message
  each, whatever text the parts carry.\<close>

lemma missing_image_fixed_message:
  assumes "\<forall>q \<in> set ps. inlineData q = None"
  shows "editCharacterSheet_response \<lparr>candidates = ps # cs, responseText = rt\<rparr>
           = Inl (Error ''The AI did not return an updated image for the character sheet.'')"
    and "colorizeMangaPage_response \<lparr>candidates = ps # cs, responseText = rt\<rparr>
           = Inl (Error ''The AI did not return a colored image.'')"
  using findInlineData_none [OF assms]
  by (simp_all add: editCharacterSheet_response_def colorizeMangaPage_response_def)

text \<open>
  C4 fails in the code for \<open>editCharacterSheet\<close> and \<open>colorizeMangaPage\<close>: on a
  response of one candidate whose only part is the text of a refusal, both fail
  with a message that does not hold the text, where \<open>generateCharacterSheet\<close>
  quotes it.
\<close>

theorem refusal_text_dropped:
  \<open>editCharacterSheet
       (\<lambda>_. Inr \<lparr>candidates = [[\<lparr>inlineData = None, partText = Some ''I cannot edit this image.''\<rparr>]],
                  responseText = Some ''I cannot edit this image.''\<rparr>)
       ''data:image/png;base64,SHEET'' ''Kaito'' ''Add a scar.''
     = Inl (Error ''The AI did not return an updated image for the character sheet.'')
   \<and> colorizeMangaPage
       (\<lambda>_. Inr \<lparr>candidates = [[\<lparr>inlineData = None, partText = Some ''I cannot edit this image.''\<rparr>]],
                  responseText = Some ''I cannot edit this image.''\<rparr>)
       ''data:image/png;base64,PAGE'' []
     = Inl (Error ''The AI did not return a colored image.'')
   \<and> generateCharacterSheet
       (\<lambda>_. Inr \<lparr>candidates = [[\<lparr>inlineData = None, partText = Some ''I cannot edit this image.''\<rparr>]],
                  responseText = Some ''I cannot edit this image.''\<rparr>)
       [''data:image/png;base64,REF''] ''Kaito'' Color
     = Inl (Error ''The AI did not return an image. Response: "I cannot edit this image."'')\<close>
  by (simp add: editCharacterSheet_def colorizeMangaPage_def generateCharacterSheet_def await_def
      editCharacterSheet_response_def colorizeMangaPage_response_def
      generateCharacterSheet_response_def findInlineData_def findText_def noImageResponse_def)

section \<open>Previous pages of a story suggestion\<close>

text \<open>
  What the loop over the previous pages adds: a label and an attachment for
  every page that has both a generated image and a scene description, in the order
  of the pages, the label numbered by the page's place in the whole list.
\<close>

lemma forEachPreviousPage_included:
  "forEachPreviousPage index pages (contextPrompt, previousPagesContent) =
     (contextPrompt
        @ concat (map (\<lambda>(i, page). previousPageLabel i page)
            (filter (\<lambda>(i, page). truthyStr (generatedImage page) \<and> sceneDescription page \<noteq> [])
               (enumerate index pages))),
      previousPagesContent
        @ map (\<lambda>(i, page). imagePart (orEmpty (generatedImage page)))
            (filter (\<lambda>(i, page). truthyStr (generatedImage page) \<and> sceneDescription page \<noteq> [])
               (enumerate index pages)))"
proof (induction pages arbitrary: index contextPrompt previousPagesContent)
  case Nil
  show ?case by simp
next
  case (Cons page pages)
  show ?case
    by (cases "generatedImage page") (simp_all add: Cons.IH)
qed

text \<open>
  C5 fails in the code where an earlier page is left out: of two previous pages,
  the first without a generated image, the only attachment is the image of the
  second page, and the instruction calls it \<open>Image 2\<close> of \<open>Previous Page 2\<close>.
\<close>

theorem previous_page_label_shifted:
  \<open>contents (generateDetailedStorySuggestion_request '''' '''' []
       [\<lparr>generatedImage = None, sceneDescription = ''Anya waits.''\<rparr>,
        \<lparr>generatedImage = Some ''data:image/png;base64,AAAA'', sceneDescription = ''Kaito runs.''\<rparr>])
   = [TextPart
       (''You are a creative manga scriptwriter. A user wants help writing a script for '' @
        ''a single manga page.\<newline>'' @
        ''\<newline>'' @
        ''**PREVIOUS PAGE CONTEXT:**\<newline>'' @
        ''This new page must be a direct continuation of the previous pages. Here is '' @
        ''the context from the immediately preceding pages, in chronological order:\<newline>'' @
        ''\<newline>'' @
        ''**[Previous Page 2]**\<newline>'' @
        ''*Script:* Kaito runs.\<newline>'' @
        ''*Image:* [Image 2 is attached]\<newline>'' @
        ''\<newline>'' @
        ''**YOUR TASK:**\<newline>'' @
        ''The user has not provided a specific premise. Based on the worldview, '' @
        ''characters, and the context from previous pages, propose a logical and '' @
        ''interesting next page for the story. Generate a detailed script for this new '' @
        ''manga page. Break down the story into 2-4 panels. For each panel, provide a '' @
        ''concise description of the action/shot and any character dialogue. Panels can '' @
        ''describe environments, objects, or close-ups without characters if it serves '' @
        ''the story. **IMPORTANT: All dialogue MUST be in English.**''),
      InlineDataPart (Some ''AAAA'') ''image/png'']\<close>
  by (simp add: generateDetailedStorySuggestion_request_def storyContext_def
      previousPageLabel_def digitChar_def
      imagePart_def base64ToGeminiPart_def sniffMimeType_def matchHere_def lineTerminator_def)

section \<open>The structured results\<close>

lemma parse_summary_only:
  \<open>JSON_parse ''{"summary":"Test"}'' = Some (JObject [(units ''summary'', JString (units ''Test''))])\<close>
  by (simp add: JSON_parse_def parseTokens_def isWhitespace_def isDigit_def closeObject_def
      closeArray_def readKey_def afterComma_def)

lemma parse_summary_and_strings:
  \<open>JSON_parse ''{"summary":"Test","panels":["x"]}''
   = Some (JObject [(units ''summary'', JString (units ''Test'')),
                    (units ''panels'', JArray [JString (units ''x'')])])\<close>
  by (simp add: JSON_parse_def parseTokens_def isWhitespace_def isDigit_def closeObject_def
      closeArray_def readKey_def afterComma_def)

lemma parse_inconsistent_analysis:
  \<open>JSON_parse ''{"analysis":"All good.","has_discrepancies":false,"correction_prompt":"Redraw Kaito."}''
   = Some (JObject [(units ''analysis'', JString (units ''All good.'')),
                    (units ''has_discrepancies'', JBool False),
                    (units ''correction_prompt'', JString (units ''Redraw Kaito.''))])\<close>
  by (simp add: JSON_parse_def parseTokens_def isWhitespace_def isDigit_def closeObject_def
      closeArray_def readKey_def afterComma_def)

lemma parse_consistent_analysis:
  \<open>JSON_parse ''{"analysis":"Kaito is missing.","has_discrepancies":true,"correction_prompt":"Add Kaito."}''
   = Some (JObject [(units ''analysis'', JString (units ''Kaito is missing.'')),
                    (units ''has_discrepancies'', JBool True),
                    (units ''correction_prompt'', JString (units ''Add Kaito.''))])\<close>
  by (simp add: JSON_parse_def parseTokens_def isWhitespace_def isDigit_def closeObject_def
      closeArray_def readKey_def afterComma_def)

lemma parse_not_json: "JSON_parse ''I cannot help with that.'' = None"
  by (simp add: JSON_parse_def isWhitespace_def isDigit_def)

text \<open>
  C1, as amended: \<open>analyzeAndSuggestCorrections\<close> returns the value its response
  text parses to, whole and unchecked; nothing in the operation relates
  \<open>has_discrepancies\<close> to \<open>correction_prompt\<close>, so the result has the invariant
  exactly when the backend's payload has it.
\<close>

theorem analysis_result_is_payload:
  assumes "JSON_parse (jsonTextOf response) = Some payload"
  shows "analyzeAndSuggestCorrections (\<lambda>_. Inr response) panelLayoutImage image' script characters
           = Inr payload"
  using assms
  by (simp add: analyzeAndSuggestCorrections_def await_def
      analyzeAndSuggestCorrections_response_def)

theorem analysis_result_is_payload_witness:
  \<open>analyzeAndSuggestCorrections
       (\<lambda>_. Inr \<lparr>candidates = [],
                  responseText = Some ''{"analysis":"Kaito is missing.","has_discrepancies":true,"correction_prompt":"Add Kaito."}''\<rparr>)
       ''data:image/png;base64,LAYOUT'' ''data:image/png;base64,PAGE'' ''Panel 1: Kaito runs.'' []
     = Inr (JObject [(units ''analysis'', JString (units ''Kaito is missing.'')),
                     (units ''has_discrepancies'', JBool True),
                     (units ''correction_prompt'', JString (units ''Add Kaito.''))])
   \<and> spec_AnalysisResult_invariant
        (JObject [(units ''analysis'', JString (units ''Kaito is missing.'')),
                  (units ''has_discrepancies'', JBool True),
                  (units ''correction_prompt'', JString (units ''Add Kaito.''))])\<close>
proof -
  have "JSON_parse (jsonTextOf \<lparr>candidates = [],
          responseText = Some ''{\"analysis\":\"Kaito is missing.\",\"has_discrepancies\":true,\"correction_prompt\":\"Add Kaito.\"}''\<rparr>)
        = Some (JObject [(units ''analysis'', JString (units ''Kaito is missing.'')),
                         (units ''has_discrepancies'', JBool True),
                         (units ''correction_prompt'', JString (units ''Add Kaito.''))])"
    unfolding jsonTextOf_def using parse_consistent_analysis by simp
  from analysis_result_is_payload [OF this]
  show ?thesis
    by (simp add: spec_AnalysisResult_invariant_def)
qed

text \<open>
  C1, as stated, fails: the operation returns a result that says there are no
  discrepancies and yet carries a correction prompt, when the backend sends one.
\<close>

theorem analysis_invariant_counterexample:
  \<open>analyzeAndSuggestCorrections
       (\<lambda>_. Inr \<lparr>candidates = [],
                  responseText = Some ''{"analysis":"All good.","has_discrepancies":false,"correction_prompt":"Redraw Kaito."}''\<rparr>)
       ''data:image/png;base64,LAYOUT'' ''data:image/png;base64,PAGE'' ''Panel 1: Kaito runs.'' []
     = Inr (JObject [(units ''analysis'', JString (units ''All good.'')),
                     (units ''has_discrepancies'', JBool False),
                     (units ''correction_prompt'', JString (units ''Redraw Kaito.''))])
   \<and> \<not> spec_AnalysisResult_invariant
        (JObject [(units ''analysis'', JString (units ''All good.'')),
                  (units ''has_discrepancies'', JBool False),
                  (units ''correction_prompt'', JString (units ''Redraw Kaito.''))])\<close>
  using parse_inconsistent_analysis
  by (simp add: analyzeAndSuggestCorrections_def await_def
      analyzeAndSuggestCorrections_response_def jsonTextOf_def spec_AnalysisResult_invariant_def)

text \<open>
  C6, as amended: a response text that does not parse as JSON fails both
  operations with their invalid-structure failure. In
  \<open>generateDetailedStorySuggestion\<close> a text that parses fails with the
  invalid-structure failure unless its value is an object with a truthy
  \<open>summary\<close> and an array \<open>panels\<close>, and otherwise the parsed value is returned
  whole; the check goes no deeper.
\<close>

theorem story_basic_validation:
  "(JSON_parse (jsonTextOf response) = None \<longrightarrow>
      generateDetailedStorySuggestion (\<lambda>_. Inr response) premise worldview characters pages
        = Inl invalidStoryStructure
      \<and> analyzeAndSuggestCorrections (\<lambda>_. Inr response) panelLayoutImage image' script characters
        = Inl invalidAnalysisStructure)
   \<and> (JSON_parse (jsonTextOf response) = Some payload \<longrightarrow>
      generateDetailedStorySuggestion (\<lambda>_. Inr response) premise worldview characters pages
        = (if \<exists>kvs summary panels.
                payload = JObject kvs
                \<and> map_of kvs (units ''summary'') = Some summary \<and> truthy summary
                \<and> map_of kvs (units ''panels'') = Some (JArray panels)
           then Inr payload
           else Inl invalidStoryStructure))"
proof -
  have valid:
    "(truthy payload \<and> truthyProperty (ownProperty payload ''summary'')
        \<and> isArray (ownProperty payload ''panels''))
     = (\<exists>kvs summary panels.
          payload = JObject kvs
          \<and> map_of kvs (units ''summary'') = Some summary \<and> truthy summary
          \<and> map_of kvs (units ''panels'') = Some (JArray panels))"
  proof (cases payload)
    case (JObject kvs)
    show ?thesis
    proof (cases "map_of kvs (units ''summary'')")
      case None
      then show ?thesis using JObject by simp
    next
      case s: (Some summary)
      show ?thesis
      proof (cases "map_of kvs (units ''panels'')")
        case None
        then show ?thesis using JObject s by simp
      next
        case (Some p)
        then show ?thesis using JObject s by (cases p) simp_all
      qed
    qed
  qed simp_all
  show ?thesis
    unfolding generateDetailedStorySuggestion_def analyzeAndSuggestCorrections_def await_def
      generateDetailedStorySuggestion_response_def analyzeAndSuggestCorrections_response_def
    using valid by simp
qed

theorem story_basic_validation_witness:
  \<open>generateDetailedStorySuggestion
       (\<lambda>_. Inr \<lparr>candidates = [], responseText = Some ''{"summary":"Test"}''\<rparr>)
       ''A duel at dawn.'' '''' [] []
     = Inl (Error ''The AI returned an invalid story structure. Please try again.'')
   \<and> generateDetailedStorySuggestion
       (\<lambda>_. Inr \<lparr>candidates = [], responseText = Some ''I cannot help with that.''\<rparr>)
       ''A duel at dawn.'' '''' [] []
     = Inl (Error ''The AI returned an invalid story structure. Please try again.'')
   \<and> analyzeAndSuggestCorrections
       (\<lambda>_. Inr \<lparr>candidates = [], responseText = Some ''I cannot help with that.''\<rparr>)
       ''data:image/png;base64,LAYOUT'' ''data:image/png;base64,PAGE'' ''Panel 1: Kaito runs.'' []
     = Inl (Error ''The AI returned an invalid analysis structure.'')\<close>
proof -
  have p: "JSON_parse (jsonTextOf \<lparr>candidates = [], responseText = Some ''{\"summary\":\"Test\"}''\<rparr>)
           = Some (JObject [(units ''summary'', JString (units ''Test''))])"
    unfolding jsonTextOf_def using parse_summary_only by simp
  have n: "JSON_parse (jsonTextOf \<lparr>candidates = [], responseText = Some ''I cannot help with that.''\<rparr>)
           = None"
    unfolding jsonTextOf_def using parse_not_json by simp
  have a: "generateDetailedStorySuggestion
       (\<lambda>_. Inr \<lparr>candidates = [], responseText = Some ''{\"summary\":\"Test\"}''\<rparr>)
       ''A duel at dawn.'' '''' [] []
     = Inl invalidStoryStructure"
    using story_basic_validation
      [of "\<lparr>candidates = [], responseText = Some ''{\"summary\":\"Test\"}''\<rparr>"
          "''A duel at dawn.''" "''''" "[]" "[]" _ _ _
          "JObject [(units ''summary'', JString (units ''Test''))]"]
      p
    by simp
  have b: "generateDetailedStorySuggestion
       (\<lambda>_. Inr \<lparr>candidates = [], responseText = Some ''I cannot help with that.''\<rparr>)
       ''A duel at dawn.'' '''' [] []
     = Inl invalidStoryStructure
     \<and> analyzeAndSuggestCorrections
       (\<lambda>_. Inr \<lparr>candidates = [], responseText = Some ''I cannot help with that.''\<rparr>)
       ''data:image/png;base64,LAYOUT'' ''data:image/png;base64,PAGE'' ''Panel 1: Kaito runs.'' []
     = Inl invalidAnalysisStructure"
    using story_basic_validation
      [of "\<lparr>candidates = [], responseText = Some ''I cannot help with that.''\<rparr>"
          "''A duel at dawn.''" "''''" "[]" "[]"
          "''data:image/png;base64,LAYOUT''" "''data:image/png;base64,PAGE''"
          "''Panel 1: Kaito runs.''"]
      n
    by simp
  from a b show ?thesis
    by (simp add: invalidStoryStructure_def invalidAnalysisStructure_def)
qed

text \<open>
  C6, as stated, fails in both operations: \<open>analyzeAndSuggestCorrections\<close> returns
  the claim's own payload, which has none of the three required fields, and
  \<open>generateDetailedStorySuggestion\<close> returns a payload whose panels are strings,
  not panel objects.
\<close>

theorem structured_payload_counterexample:
  \<open>analyzeAndSuggestCorrections
       (\<lambda>_. Inr \<lparr>candidates = [], responseText = Some ''{"summary":"Test"}''\<rparr>)
       ''data:image/png;base64,LAYOUT'' ''data:image/png;base64,PAGE'' ''Panel 1: Kaito runs.'' []
     = Inr (JObject [(units ''summary'', JString (units ''Test''))])
   \<and> \<not> conforms analysisSchema (JObject [(units ''summary'', JString (units ''Test''))])
   \<and> generateDetailedStorySuggestion
       (\<lambda>_. Inr \<lparr>candidates = [], responseText = Some ''{"summary":"Test","panels":["x"]}''\<rparr>)
       ''A duel at dawn.'' '''' [] []
     = Inr (JObject [(units ''summary'', JString (units ''Test'')),
                     (units ''panels'', JArray [JString (units ''x'')])])
   \<and> \<not> conforms storySchema
        (JObject [(units ''summary'', JString (units ''Test'')),
                  (units ''panels'', JArray [JString (units ''x'')])])\<close>
  using parse_summary_only parse_summary_and_strings
  by (simp add: analyzeAndSuggestCorrections_def generateDetailedStorySuggestion_def await_def
      analyzeAndSuggestCorrections_response_def generateDetailedStorySuggestion_response_def
      jsonTextOf_def analysisSchema_def storySchema_def)

end
